theory Spec2Isabelle
  imports Main "HOL-Library.AList" "HOL-Library.Sublist"
begin

section \<open>JavaScript values\<close>

text \<open>
  The values that cross the client's interface: request parameters, request bodies, the
  transport overrides and the option object handed to the transport. An object is the list
  of its own enumerable properties; a property is read with \<open>map_of\<close> and written with
  \<open>AList.update\<close> (an existing key keeps its place, a new key goes to the end), which is
  the order of enumeration for keys that are not array indices. Numbers are integers here.
  Arrays are objects whose keys are their indices.
\<close>

datatype jsval =
    JUndefined
  | JNull
  | JBool bool
  | JNum int
  | JStr string
  | JObj "(string \<times> jsval) list"

type_synonym obj = "(string \<times> jsval) list"

text \<open>\<open>typeof value\<close>; \<open>typeof null\<close> is \<open>"object"\<close>.\<close>

fun typeof :: "jsval \<Rightarrow> string" where
  "typeof JUndefined = ''undefined''"
| "typeof JNull = ''object''"
| "typeof (JBool b) = ''boolean''"
| "typeof (JNum n) = ''number''"
| "typeof (JStr s) = ''string''"
| "typeof (JObj kvs) = ''object''"

text \<open>The truth value a condition \<open>if (v)\<close> and the operators \<open>!v\<close>, \<open>v || d\<close> read.\<close>

fun truthy :: "jsval \<Rightarrow> bool" where
  "truthy JUndefined = False"
| "truthy JNull = False"
| "truthy (JBool b) = b"
| "truthy (JNum n) = (n \<noteq> 0)"
| "truthy (JStr s) = (s \<noteq> [])"
| "truthy (JObj kvs) = True"

text \<open>
  The properties a \<open>for (k in v)\<close> loop and a spread \<open>{...v}\<close> visit, in order. A key bound
  twice in the list is one property, with the value \<open>map_of\<close> reads. \<open>props_of\<close> is
  applied to \<open>undefined\<close>, to \<open>null\<close> and to objects only; the first two have no property.
\<close>

definition own_props :: "obj \<Rightarrow> obj" where
  "own_props kvs = AList.clearjunk kvs"

fun props_of :: "jsval \<Rightarrow> obj" where
  "props_of (JObj kvs) = own_props kvs"
| "props_of v = []"

text \<open>Decimal digits of a number, for its conversion to a string.\<close>

function string_of_nat :: "nat \<Rightarrow> string" where
  "string_of_nat n =
     (if n < 10 then [char_of (48 + n)]
      else string_of_nat (n div 10) @ [char_of (48 + n mod 10)])"
  by pat_completeness auto
termination
  by (relation "measure id") auto

declare string_of_nat.simps [simp del]

definition string_of_int :: "int \<Rightarrow> string" where
  "string_of_int i = (if i < 0 then CHR ''-'' # string_of_nat (nat (- i)) else string_of_nat (nat i))"

text \<open>\<open>ToString\<close>, as string concatenation and template literals apply it.\<close>

fun to_string :: "jsval \<Rightarrow> string" where
  "to_string JUndefined = ''undefined''"
| "to_string JNull = ''null''"
| "to_string (JBool b) = (if b then ''true'' else ''false'')"
| "to_string (JNum n) = string_of_int n"
| "to_string (JStr s) = s"
| "to_string (JObj kvs) = ''[object Object]''"

text \<open>
  The spread of \<open>src\<close> over \<open>tgt\<close>, as in \<open>{ ...tgt, ...src }\<close>: every own property of
  \<open>src\<close> is assigned in turn.
\<close>

definition assign_all :: "obj \<Rightarrow> obj \<Rightarrow> obj" where
  "assign_all src tgt = fold (\<lambda>(k, v). AList.update k v) (own_props src) tgt"

definition spread :: "obj \<Rightarrow> obj \<Rightarrow> obj" where
  "spread a b = assign_all b (assign_all a [])"

section \<open>String.prototype.replace with a string pattern\<close>

text \<open>
  \<open>find_first pat s\<close> splits \<open>s\<close> around the first occurrence of \<open>pat\<close>: the text before
  it and the text after it.
\<close>

fun find_first :: "string \<Rightarrow> string \<Rightarrow> (string \<times> string) option" where
  "find_first pat [] = (if pat = [] then Some ([], []) else None)"
| "find_first pat (c # cs) =
     (if prefix pat (c # cs) then Some ([], drop (length pat) (c # cs))
      else map_option (\<lambda>(b, a). (c # b, a)) (find_first pat cs))"

text \<open>
  The replacement text is a template: \<open>$$\<close> is a dollar sign, \<open>$&\<close> the matched text,
  \<open>$`\<close> the text before the match and \<open>$'\<close> the text after it. With a string pattern
  there are no capture groups, so every other \<open>$\<close> stands for itself.
\<close>

fun get_substitution :: "string \<Rightarrow> string \<Rightarrow> string \<Rightarrow> string \<Rightarrow> string" where
  "get_substitution m b a [] = []"
| "get_substitution m b a [c] = [c]"
| "get_substitution m b a (c # d # ds) =
     (if c = CHR ''$'' \<and> d = CHR ''$'' then CHR ''$'' # get_substitution m b a ds
      else if c = CHR ''$'' \<and> d = CHR ''&'' then m @ get_substitution m b a ds
      else if c = CHR ''$'' \<and> d = CHR 0x60 then b @ get_substitution m b a ds
      else if c = CHR ''$'' \<and> d = CHR 0x27 then a @ get_substitution m b a ds
      else c # get_substitution m b a (d # ds))"

definition replace :: "string \<Rightarrow> string \<Rightarrow> string \<Rightarrow> string" where
  "replace s pat repl =
     (case find_first pat s of
        None \<Rightarrow> s
      | Some (b, a) \<Rightarrow> b @ get_substitution pat b a repl @ a)"

section \<open>The client\<close>

text \<open>
  What the module takes from its runtime: whether \<open>process\<close> is the Node process object,
  the \<open>hostname\<close> that \<open>new Url(url)\<close> of the \<open>url-parse\<close> package reports, and
  \<open>JSON.stringify\<close>.
\<close>

record env =
  is_node :: bool
  hostname :: "string \<Rightarrow> string"
  stringify :: "jsval \<Rightarrow> string"

text \<open>
  The option object of the constructor (\<open>IWooCommerceRestApiOptions\<close>), each property with
  its declared type; \<open>None\<close> is a property that is not there.
\<close>

record opt =
  opt_url :: "string option"
  opt_jwtToken :: "string option"
  opt_wpAPIPrefix :: "string option"
  opt_version :: "string option"
  opt_encoding :: "string option"
  opt_port :: "int option"
  opt_timeout :: "int option"
  opt_axiosConfig :: "obj option"

text \<open>The fields of a \<open>WooCommerceRestApi\<close> instance.\<close>

record client =
  classVersion :: string
  url :: string
  wpAPIPrefix :: string
  version :: string
  jwtToken :: "string option"
  encoding :: string
  port :: jsval
  timeout :: "int option"
  axiosConfig :: obj

datatype error = OptionsException string

text \<open>\<open>!s\<close> is false, and \<open>s || d\<close> is \<open>s\<close>, for a string that is there and not empty.\<close>

fun given :: "string option \<Rightarrow> bool" where
  "given None = False"
| "given (Some s) = (s \<noteq> [])"

fun str_or :: "string option \<Rightarrow> string \<Rightarrow> string" where
  "str_or None d = d"
| "str_or (Some s) d = (if s \<noteq> [] then s else d)"

text \<open>\<open>opt || {}\<close>: the object with no property.\<close>

definition no_opt :: opt where
  "no_opt = \<lparr>opt_url = None, opt_jwtToken = None, opt_wpAPIPrefix = None, opt_version = None,
     opt_encoding = None, opt_port = None, opt_timeout = None, opt_axiosConfig = None\<rparr>"

text \<open>The instance before its first assignment.\<close>

definition new_instance :: client where
  "new_instance = \<lparr>classVersion = [], url = [], wpAPIPrefix = [], version = [],
     jwtToken = None, encoding = [], port = JUndefined, timeout = None, axiosConfig = []\<rparr>"

text \<open>
  \<open>_setDefaultsOptions(opt)\<close>. The constructor has refused a \<open>url\<close> that is not there
  before this runs, so \<open>this.url\<close> is a string.
\<close>

definition setDefaultsOptions :: "opt \<Rightarrow> client \<Rightarrow> client" where
  "setDefaultsOptions opt this = this
     \<lparr>url := (case opt_url opt of None \<Rightarrow> [] | Some u \<Rightarrow> u),
      wpAPIPrefix := str_or (opt_wpAPIPrefix opt) ''wp-json'',
      version := str_or (opt_version opt) ''wc/v3'',
      jwtToken := opt_jwtToken opt,
      encoding := str_or (opt_encoding opt) ''utf8'',
      port := (case opt_port opt of None \<Rightarrow> JStr [] | Some p \<Rightarrow> if p \<noteq> 0 then JNum p else JStr []),
      timeout := opt_timeout opt,
      axiosConfig := (case opt_axiosConfig opt of None \<Rightarrow> [] | Some a \<Rightarrow> a)\<rparr>"

text \<open>The constructor of \<open>src/index.mjs\<close>.\<close>

definition constructor :: "opt option \<Rightarrow> error + client" where
  "constructor opt0 =
     (let opt = (case opt0 of None \<Rightarrow> no_opt | Some p \<Rightarrow> p) in
      if \<not> given (opt_url opt) then Inl (OptionsException ''url is required'')
      else if \<not> given (opt_jwtToken opt) then Inl (OptionsException ''jwtToken is required'')
      else Inr (setDefaultsOptions opt (new_instance\<lparr>classVersion := ''1.0.1''\<rparr>)))"

text \<open>
  The constructor of the compiled build that follows the declarations in
  \<open>src/index.d.ts\<close>: the check of \<open>jwtToken\<close> is commented out there.
\<close>

definition constructor_cjs :: "opt option \<Rightarrow> error + client" where
  "constructor_cjs opt0 =
     (let opt = (case opt0 of None \<Rightarrow> no_opt | Some p \<Rightarrow> p) in
      if \<not> given (opt_url opt) then Inl (OptionsException ''url is required'')
      else Inr (setDefaultsOptions opt (new_instance\<lparr>classVersion := ''1.0.1''\<rparr>)))"

text \<open>\<open>_parseParamsObject(params, query)\<close>.\<close>

definition parse_item :: "string \<Rightarrow> string \<times> jsval \<Rightarrow> obj \<Rightarrow> obj" where
  "parse_item key = (\<lambda>(prop, w) query. AList.update (key @ ''['' @ prop @ '']'') w query)"

definition parse_param :: "string \<times> jsval \<Rightarrow> obj \<Rightarrow> obj" where
  "parse_param = (\<lambda>(key, v) query.
     if typeof v = ''object'' then fold (parse_item key) (props_of v) query
     else AList.update key v query)"

definition parseParamsObject :: "obj \<Rightarrow> obj \<Rightarrow> obj" where
  "parseParamsObject params query = fold parse_param (own_props params) query"

text \<open>\<open>s.slice(-1)\<close>: the last character, the empty string for an empty \<open>s\<close>.\<close>

fun slice_last :: "string \<Rightarrow> string" where
  "slice_last [] = []"
| "slice_last [c] = [c]"
| "slice_last (c # d # ds) = slice_last (d # ds)"

text \<open>
  \<open>_getUrl(endpoint, params)\<close>; \<open>params\<close> is not read. \<open>joined\<close> is the value of the
  local \<open>url\<close> before the port is included.
\<close>

definition joined :: "client \<Rightarrow> string \<Rightarrow> string" where
  "joined this endpoint =
     (let api = wpAPIPrefix this @ ''/'';
          url1 = (if slice_last (url this) = ''/'' then url this else url this @ ''/'')
      in url1 @ api @ version this @ ''/'' @ endpoint)"

definition getUrl :: "env \<Rightarrow> client \<Rightarrow> string \<Rightarrow> string" where
  "getUrl e this endpoint =
     (let url2 = joined this endpoint
      in if port this \<noteq> JStr [] then
           (let h = hostname e url2 in replace url2 h (h @ '':'' @ to_string (port this)))
         else url2)"

text \<open>
  \<open>_request(method, endpoint, data, params = {})\<close> of \<open>src/index.mjs\<close>. \<open>assemble\<close> is
  the local \<open>options\<close> before the overrides are spread over it; the result of \<open>request\<close>
  is the option object handed to \<open>axios\<close>. \<open>options.headers\<close> and the local \<open>headers\<close>
  are one object: \<open>set_header\<close> writes a header into both views of it.
\<close>

definition get_prop :: "obj \<Rightarrow> string \<Rightarrow> jsval" where
  "get_prop ob k = (case map_of ob k of None \<Rightarrow> JUndefined | Some v \<Rightarrow> v)"

definition set_header :: "string \<Rightarrow> jsval \<Rightarrow> obj \<times> obj \<Rightarrow> obj \<times> obj" where
  "set_header k v = (\<lambda>(headers, options).
     (let h = AList.update k v headers in (h, AList.update ''headers'' (JObj h) options)))"

definition default_params :: "obj option \<Rightarrow> obj" where
  "default_params params0 = (case params0 of None \<Rightarrow> [] | Some p \<Rightarrow> p)"

definition timeout_val :: "client \<Rightarrow> jsval" where
  "timeout_val this = (case timeout this of None \<Rightarrow> JUndefined | Some t \<Rightarrow> JNum t)"

definition token_text :: "client \<Rightarrow> string" where
  "token_text this = (case jwtToken this of None \<Rightarrow> ''undefined'' | Some t \<Rightarrow> t)"

definition assemble :: "env \<Rightarrow> client \<Rightarrow> string \<Rightarrow> string \<Rightarrow> jsval \<Rightarrow> obj option \<Rightarrow> obj" where
  "assemble e this method endpoint data params0 =
     (let params = default_params params0;
          url0 = getUrl e this endpoint;
          headers0 = [(''Accept'', JStr ''application/json'')];
          headers1 = (if is_node e
                      then AList.update ''User-Agent''
                             (JStr (''WooCommerce REST API - JS Client/'' @ classVersion this)) headers0
                      else headers0);
          options1 = [(''url'', JStr url0), (''method'', JStr method),
                      (''responseEncoding'', JStr (encoding this)), (''timeout'', timeout_val this),
                      (''responseType'', JStr ''json''), (''headers'', JObj headers1)];
          (headers2, options2) =
             set_header ''Authorization'' (JStr (''Bearer '' @ token_text this)) (headers1, options1);
          options3 = AList.update ''params''
                       (JObj (spread (props_of (get_prop options2 ''params'')) params)) options2;
          (headers4, options4) =
             (if truthy data
              then (let (h, ob) = set_header ''Content-Type''
                                    (JStr ''application/json;charset=utf-8'') (headers2, options3)
                    in (h, AList.update ''data'' (JStr (stringify e data)) ob))
              else (headers2, options3))
      in options4)"

definition request :: "env \<Rightarrow> client \<Rightarrow> string \<Rightarrow> string \<Rightarrow> jsval \<Rightarrow> obj option \<Rightarrow> obj" where
  "request e this method endpoint data params0 =
     (let options = assemble e this method endpoint data params0
      in spread options (axiosConfig this))"

text \<open>
  \<open>_request\<close> of the compiled build in \<open>src/index.d.ts\<close>: the \<open>Authorization\<close> header is
  set under \<open>if (this.jwtToken)\<close>; the rest is the same.
\<close>

definition assemble_cjs :: "env \<Rightarrow> client \<Rightarrow> string \<Rightarrow> string \<Rightarrow> jsval \<Rightarrow> obj option \<Rightarrow> obj" where
  "assemble_cjs e this method endpoint data params0 =
     (let params = default_params params0;
          url0 = getUrl e this endpoint;
          headers0 = [(''Accept'', JStr ''application/json'')];
          headers1 = (if is_node e
                      then AList.update ''User-Agent''
                             (JStr (''WooCommerce REST API - JS Client/'' @ classVersion this)) headers0
                      else headers0);
          options1 = [(''url'', JStr url0), (''method'', JStr method),
                      (''responseEncoding'', JStr (encoding this)), (''timeout'', timeout_val this),
                      (''responseType'', JStr ''json''), (''headers'', JObj headers1)];
          (headers2, options2) =
             (if given (jwtToken this)
              then set_header ''Authorization'' (JStr (''Bearer '' @ token_text this)) (headers1, options1)
              else (headers1, options1));
          options3 = AList.update ''params''
                       (JObj (spread (props_of (get_prop options2 ''params'')) params)) options2;
          (headers4, options4) =
             (if truthy data
              then (let (h, ob) = set_header ''Content-Type''
                                    (JStr ''application/json;charset=utf-8'') (headers2, options3)
                    in (h, AList.update ''data'' (JStr (stringify e data)) ob))
              else (headers2, options3))
      in options4)"

definition request_cjs :: "env \<Rightarrow> client \<Rightarrow> string \<Rightarrow> string \<Rightarrow> jsval \<Rightarrow> obj option \<Rightarrow> obj" where
  "request_cjs e this method endpoint data params0 =
     (let options = assemble_cjs e this method endpoint data params0
      in spread options (axiosConfig this))"

text \<open>The verb methods; each has \<open>params = {}\<close> as its default.\<close>

definition get :: "env \<Rightarrow> client \<Rightarrow> string \<Rightarrow> obj option \<Rightarrow> obj" where
  "get e this endpoint params0 = request e this ''get'' endpoint JNull (Some (default_params params0))"

definition post :: "env \<Rightarrow> client \<Rightarrow> string \<Rightarrow> jsval \<Rightarrow> obj option \<Rightarrow> obj" where
  "post e this endpoint data params0 =
     request e this ''post'' endpoint data (Some (default_params params0))"

definition put :: "env \<Rightarrow> client \<Rightarrow> string \<Rightarrow> jsval \<Rightarrow> obj option \<Rightarrow> obj" where
  "put e this endpoint data params0 =
     request e this ''put'' endpoint data (Some (default_params params0))"

definition delete :: "env \<Rightarrow> client \<Rightarrow> string \<Rightarrow> obj option \<Rightarrow> obj" where
  "delete e this endpoint params0 =
     request e this ''delete'' endpoint JNull (Some (default_params params0))"

definition options :: "env \<Rightarrow> client \<Rightarrow> string \<Rightarrow> obj option \<Rightarrow> obj" where
  "options e this endpoint params0 =
     request e this ''options'' endpoint JNull (Some (default_params params0))"

text \<open>
  A call of a verb method: the instance, and the option object handed to the transport.
\<close>

datatype call =
    Get string "obj option"
  | Post string jsval "obj option"
  | Put string jsval "obj option"
  | Delete string "obj option"
  | Options string "obj option"

fun perform :: "env \<Rightarrow> client \<Rightarrow> call \<Rightarrow> client \<times> obj" where
  "perform e this (Get endpoint params0) = (this, get e this endpoint params0)"
| "perform e this (Post endpoint data params0) = (this, post e this endpoint data params0)"
| "perform e this (Put endpoint data params0) = (this, put e this endpoint data params0)"
| "perform e this (Delete endpoint params0) = (this, delete e this endpoint params0)"
| "perform e this (Options endpoint params0) = (this, options e this endpoint params0)"

text \<open>What the dispatched options carry under a header name.\<close>

definition header_of :: "obj \<Rightarrow> string \<Rightarrow> jsval option" where
  "header_of ob name = (case map_of ob ''headers'' of Some (JObj h) \<Rightarrow> map_of h name | _ \<Rightarrow> None)"

text \<open>The parameters a call passes on, with the default applied.\<close>

fun call_params :: "call \<Rightarrow> obj" where
  "call_params (Get endpoint params0) = default_params params0"
| "call_params (Post endpoint data params0) = default_params params0"
| "call_params (Put endpoint data params0) = default_params params0"
| "call_params (Delete endpoint params0) = default_params params0"
| "call_params (Options endpoint params0) = default_params params0"

section \<open>The instance and its objects in a store\<close>

text \<open>
  To follow what the calls write, objects live in a store: the list of all objects, an
  object's address being its position. A value is a primitive or the address of an object,
  so that two properties can hold one and the same object, as \<open>this.axiosConfig\<close> and the
  caller's \<open>opt.axiosConfig\<close> do. \<open>alloc\<close> creates an object (an object literal, \<open>new\<close>,
  the result of a spread), \<open>prop_get\<close> reads \<open>v.k\<close> and \<open>prop_set\<close> performs
  \<open>v.k = w\<close>. Every property the methods below read or write is a property of an object.
\<close>

datatype hval = HUndefined | HNull | HBool bool | HNum int | HStr string | HRef nat

type_synonym hobj = "(string \<times> hval) list"
type_synonym heap = "hobj list"

datatype type_error = TypeError

fun truthy_h :: "hval \<Rightarrow> bool" where
  "truthy_h HUndefined = False"
| "truthy_h HNull = False"
| "truthy_h (HBool b) = b"
| "truthy_h (HNum n) = (n \<noteq> 0)"
| "truthy_h (HStr s) = (s \<noteq> [])"
| "truthy_h (HRef a) = True"

fun to_string_h :: "hval \<Rightarrow> string" where
  "to_string_h HUndefined = ''undefined''"
| "to_string_h HNull = ''null''"
| "to_string_h (HBool b) = (if b then ''true'' else ''false'')"
| "to_string_h (HNum n) = string_of_int n"
| "to_string_h (HStr s) = s"
| "to_string_h (HRef a) = ''[object Object]''"

definition alloc :: "hobj \<Rightarrow> heap \<Rightarrow> heap \<times> nat" where
  "alloc ob h = (h @ [ob], length h)"

definition obj_at :: "heap \<Rightarrow> nat \<Rightarrow> hobj" where
  "obj_at h a = (if a < length h then h ! a else [])"

fun prop_get :: "heap \<Rightarrow> hval \<Rightarrow> string \<Rightarrow> hval" where
  "prop_get h (HRef a) k = (case map_of (obj_at h a) k of None \<Rightarrow> HUndefined | Some v \<Rightarrow> v)"
| "prop_get h w k = HUndefined"

fun prop_set :: "heap \<Rightarrow> hval \<Rightarrow> string \<Rightarrow> hval \<Rightarrow> heap" where
  "prop_set h (HRef a) k v = (if a < length h then h[a := AList.update k v (h ! a)] else h)"
| "prop_set h w k v = h"

text \<open>The properties a spread copies; a string spreads into its characters.\<close>

fun props_h :: "heap \<Rightarrow> hval \<Rightarrow> hobj" where
  "props_h h (HRef a) = AList.clearjunk (obj_at h a)"
| "props_h h (HStr s) = zip (map string_of_nat [0..<length s]) (map (\<lambda>c. HStr [c]) s)"
| "props_h h w = []"

definition spread_h :: "heap \<Rightarrow> hval \<Rightarrow> hval \<Rightarrow> hobj" where
  "spread_h h a b = fold (\<lambda>(k, v). AList.update k v) (props_h h b)
                      (fold (\<lambda>(k, v). AList.update k v) (props_h h a) [])"

text \<open>
  \<open>v || d\<close>; \<open>v || {}\<close>, which creates an object when \<open>v\<close> is falsy; and a parameter
  with the default \<open>{}\<close>, which creates one when the argument is \<open>undefined\<close>.
\<close>

definition or_h :: "hval \<Rightarrow> hval \<Rightarrow> hval" where
  "or_h v d = (if truthy_h v then v else d)"

definition or_new :: "heap \<Rightarrow> hval \<Rightarrow> heap \<times> hval" where
  "or_new h v = (if truthy_h v then (h, v) else (let (h1, a) = alloc [] h in (h1, HRef a)))"

definition default_new :: "heap \<Rightarrow> hval \<Rightarrow> heap \<times> hval" where
  "default_new h v = (if v = HUndefined then (let (h1, a) = alloc [] h in (h1, HRef a)) else (h, v))"

text \<open>
  The runtime of the store model: \<open>JSON.stringify\<close>, which throws on a body it cannot
  serialize (\<open>None\<close>), and what the transport does to the store when it is handed the
  address of the option object.
\<close>

record runtime =
  rt_env :: env
  rt_stringify :: "heap \<Rightarrow> hval \<Rightarrow> string option"
  rt_axios :: "heap \<Rightarrow> nat \<Rightarrow> heap"

text \<open>
  The constructor of \<open>src/index.mjs\<close> and \<open>_setDefaultsOptions\<close>: \<open>new\<close> creates the
  instance, the assignments write its fields. \<open>this.axiosConfig\<close> is the caller's object,
  not a copy of it.
\<close>

definition setDefaultsOptions_h :: "heap \<Rightarrow> nat \<Rightarrow> hval \<Rightarrow> heap" where
  "setDefaultsOptions_h h this opt =
     (let h1 = prop_set h (HRef this) ''url'' (prop_get h opt ''url'');
          h2 = prop_set h1 (HRef this) ''wpAPIPrefix'' (or_h (prop_get h1 opt ''wpAPIPrefix'') (HStr ''wp-json''));
          h3 = prop_set h2 (HRef this) ''version'' (or_h (prop_get h2 opt ''version'') (HStr ''wc/v3''));
          h4 = prop_set h3 (HRef this) ''jwtToken'' (prop_get h3 opt ''jwtToken'');
          h5 = prop_set h4 (HRef this) ''encoding'' (or_h (prop_get h4 opt ''encoding'') (HStr ''utf8''));
          h6 = prop_set h5 (HRef this) ''port'' (or_h (prop_get h5 opt ''port'') (HStr []));
          h7 = prop_set h6 (HRef this) ''timeout'' (prop_get h6 opt ''timeout'');
          (h8, cfg) = or_new h7 (prop_get h7 opt ''axiosConfig'')
      in prop_set h8 (HRef this) ''axiosConfig'' cfg)"

definition constructor_h :: "heap \<Rightarrow> hval \<Rightarrow> error + heap \<times> nat" where
  "constructor_h h opt0 =
     (let (h1, this) = alloc [] h;
          (h2, opt) = or_new h1 opt0
      in if \<not> truthy_h (prop_get h2 opt ''url'') then Inl (OptionsException ''url is required'')
         else if \<not> truthy_h (prop_get h2 opt ''jwtToken'') then Inl (OptionsException ''jwtToken is required'')
         else (let h3 = prop_set h2 (HRef this) ''classVersion'' (HStr ''1.0.1'')
               in Inr (setDefaultsOptions_h h3 this opt, this)))"

text \<open>
  \<open>_getUrl\<close>: it reads the instance and writes nothing. \<open>this.url.slice\<close> throws a
  \<open>TypeError\<close> when \<open>this.url\<close> is not a string.
\<close>

definition getUrl_h :: "env \<Rightarrow> heap \<Rightarrow> nat \<Rightarrow> string \<Rightarrow> type_error + string" where
  "getUrl_h e h this endpoint =
     (let api = to_string_h (prop_get h (HRef this) ''wpAPIPrefix'') @ ''/''
      in case prop_get h (HRef this) ''url'' of
           HStr u \<Rightarrow>
             (let url1 = (if slice_last u = ''/'' then u else u @ ''/'');
                  url2 = url1 @ api @ to_string_h (prop_get h (HRef this) ''version'') @ ''/'' @ endpoint
              in if prop_get h (HRef this) ''port'' \<noteq> HStr [] then
                   (let hn = hostname e url2
                    in Inr (replace url2 hn (hn @ '':'' @ to_string_h (prop_get h (HRef this) ''port''))))
                 else Inr url2)
         | _ \<Rightarrow> Inl TypeError)"

text \<open>
  \<open>_request\<close>, statement by statement. \<open>dispatch\<close> is its end: the spread of the
  options and of \<open>this.axiosConfig\<close> into a new object, and the call of \<open>axios\<close> on it.
  The result is the store after the call and the address of the object handed to the
  transport, or the error thrown.
\<close>

definition dispatch :: "runtime \<Rightarrow> heap \<Rightarrow> nat \<Rightarrow> nat \<Rightarrow> heap \<times> (type_error + nat)" where
  "dispatch r h this opts =
     (let (h1, sent) = alloc (spread_h h (HRef opts) (prop_get h (HRef this) ''axiosConfig'')) h
      in (rt_axios r h1 sent, Inr sent))"

definition request_h ::
  "runtime \<Rightarrow> heap \<Rightarrow> nat \<Rightarrow> string \<Rightarrow> string \<Rightarrow> hval \<Rightarrow> hval \<Rightarrow> heap \<times> (type_error + nat)" where
  "request_h r h this method endpoint data params0 =
     (let (h0, params) = default_new h params0
      in case getUrl_h (rt_env r) h0 this endpoint of
           Inl err \<Rightarrow> (h0, Inl err)
         | Inr url0 \<Rightarrow>
            (let (h1, headers) = alloc [(''Accept'', HStr ''application/json'')] h0;
                 h2 = (if is_node (rt_env r)
                       then prop_set h1 (HRef headers) ''User-Agent''
                              (HStr (''WooCommerce REST API - JS Client/''
                                     @ to_string_h (prop_get h1 (HRef this) ''classVersion'')))
                       else h1);
                 (h3, opts) = alloc [(''url'', HStr url0), (''method'', HStr method),
                     (''responseEncoding'', prop_get h2 (HRef this) ''encoding''),
                     (''timeout'', prop_get h2 (HRef this) ''timeout''),
                     (''responseType'', HStr ''json''), (''headers'', HRef headers)] h2;
                 h4 = prop_set h3 (HRef headers) ''Authorization''
                        (HStr (''Bearer '' @ to_string_h (prop_get h3 (HRef this) ''jwtToken'')));
                 (h5, query) = alloc (spread_h h4 (prop_get h4 (HRef opts) ''params'') params) h4;
                 h6 = prop_set h5 (HRef opts) ''params'' (HRef query)
             in if truthy_h data then
                  (let h7 = prop_set h6 (prop_get h6 (HRef opts) ''headers'') ''Content-Type''
                              (HStr ''application/json;charset=utf-8'')
                   in case rt_stringify r h7 data of
                        None \<Rightarrow> (h7, Inl TypeError)
                      | Some s \<Rightarrow> dispatch r (prop_set h7 (HRef opts) ''data'' (HStr s)) this opts)
                else dispatch r h6 this opts))"

text \<open>The verb methods, each with its default \<open>params = {}\<close>, and sequences of calls.\<close>

definition get_h :: "runtime \<Rightarrow> heap \<Rightarrow> nat \<Rightarrow> string \<Rightarrow> hval \<Rightarrow> heap \<times> (type_error + nat)" where
  "get_h r h this endpoint params0 =
     (let (h0, params) = default_new h params0 in request_h r h0 this ''get'' endpoint HNull params)"

definition post_h :: "runtime \<Rightarrow> heap \<Rightarrow> nat \<Rightarrow> string \<Rightarrow> hval \<Rightarrow> hval \<Rightarrow> heap \<times> (type_error + nat)" where
  "post_h r h this endpoint data params0 =
     (let (h0, params) = default_new h params0 in request_h r h0 this ''post'' endpoint data params)"

definition put_h :: "runtime \<Rightarrow> heap \<Rightarrow> nat \<Rightarrow> string \<Rightarrow> hval \<Rightarrow> hval \<Rightarrow> heap \<times> (type_error + nat)" where
  "put_h r h this endpoint data params0 =
     (let (h0, params) = default_new h params0 in request_h r h0 this ''put'' endpoint data params)"

definition delete_h :: "runtime \<Rightarrow> heap \<Rightarrow> nat \<Rightarrow> string \<Rightarrow> hval \<Rightarrow> heap \<times> (type_error + nat)" where
  "delete_h r h this endpoint params0 =
     (let (h0, params) = default_new h params0 in request_h r h0 this ''delete'' endpoint HNull params)"

definition options_h :: "runtime \<Rightarrow> heap \<Rightarrow> nat \<Rightarrow> string \<Rightarrow> hval \<Rightarrow> heap \<times> (type_error + nat)" where
  "options_h r h this endpoint params0 =
     (let (h0, params) = default_new h params0 in request_h r h0 this ''options'' endpoint HNull params)"

datatype hcall =
    HGet string hval
  | HPost string hval hval
  | HPut string hval hval
  | HDelete string hval
  | HOptions string hval

fun perform_h :: "runtime \<Rightarrow> heap \<Rightarrow> nat \<Rightarrow> hcall \<Rightarrow> heap \<times> (type_error + nat)" where
  "perform_h r h this (HGet endpoint params0) = get_h r h this endpoint params0"
| "perform_h r h this (HPost endpoint data params0) = post_h r h this endpoint data params0"
| "perform_h r h this (HPut endpoint data params0) = put_h r h this endpoint data params0"
| "perform_h r h this (HDelete endpoint params0) = delete_h r h this endpoint params0"
| "perform_h r h this (HOptions endpoint params0) = options_h r h this endpoint params0"

fun run_h :: "runtime \<Rightarrow> heap \<Rightarrow> nat \<Rightarrow> hcall list \<Rightarrow> heap \<times> (type_error + nat) list" where
  "run_h r h this [] = (h, [])"
| "run_h r h this (c # cs) =
     (let (h1, res) = perform_h r h this c;
          (h2, rest) = run_h r h1 this cs
      in (h2, res # rest))"

text \<open>
  A transport that writes only to the option object it is handed and to objects it
  creates.
\<close>

definition keeps_old :: "(heap \<Rightarrow> nat \<Rightarrow> heap) \<Rightarrow> bool" where
  "keeps_old t = (\<forall>h sent. length h \<le> length (t h sent)
                    \<and> (\<forall>a. a < length h \<and> a \<noteq> sent \<longrightarrow> t h sent ! a = h ! a))"

section \<open>The flattening the specification describes\<close>

text \<open>
  In the specification's words: for each key of the input mapping, a value that is a
  nested object is expanded into keys \<open>key[subkey]\<close>, one level deep; any other value is
  passed through under its own key.
\<close>

fun flatten_entry :: "string \<times> jsval \<Rightarrow> obj" where
  "flatten_entry (key, JObj sub) = map (\<lambda>(prop, w). (key @ ''['' @ prop @ '']'', w)) (own_props sub)"
| "flatten_entry (key, v) = [(key, v)]"

definition flattenParams :: "obj \<Rightarrow> obj" where
  "flattenParams params = concat (map flatten_entry (own_props params))"

text \<open>
  What one round of the outer loop of \<open>_parseParamsObject\<close> writes into \<open>query\<close>, in the
  order of the writes.
\<close>

definition flat_code :: "string \<times> jsval \<Rightarrow> obj" where
  "flat_code = (\<lambda>(key, v). if typeof v = ''object''
      then map (\<lambda>(prop, w). (key @ ''['' @ prop @ '']'', w)) (props_of v) else [(key, v)])"

section \<open>A shop, for the examples\<close>

text \<open>
  The host of a URL of the shape \<open>scheme://host/path\<close> or \<open>scheme://host:port/path\<close>, as a
  stand-in for what the \<open>url-parse\<close> package reports on such URLs. The examples send
  the empty object as their only body, and \<open>{}\<close> is its serialization.
\<close>

definition simple_hostname :: "string \<Rightarrow> string" where
  "simple_hostname u =
     (case find_first ''//'' u of
        None \<Rightarrow> []
      | Some (b, a) \<Rightarrow> takeWhile (\<lambda>c. c \<noteq> CHR ''/'' \<and> c \<noteq> CHR '':'' \<and> c \<noteq> CHR ''?'' \<and> c \<noteq> CHR ''#'') a)"

definition node_env :: env where
  "node_env = \<lparr>is_node = True, hostname = simple_hostname, stringify = (\<lambda>v. ''{}'')\<rparr>"

definition shop_opt :: opt where
  "shop_opt = \<lparr>opt_url = Some ''https://shop.example.com'', opt_jwtToken = Some ''abc'',
     opt_wpAPIPrefix = None, opt_version = None, opt_encoding = None, opt_port = None,
     opt_timeout = None, opt_axiosConfig = None\<rparr>"

definition shop_client :: client where
  "shop_client = \<lparr>classVersion = ''1.0.1'', url = ''https://shop.example.com'',
     wpAPIPrefix = ''wp-json'', version = ''wc/v3'', jwtToken = Some ''abc'', encoding = ''utf8'',
     port = JStr [], timeout = None, axiosConfig = []\<rparr>"

text \<open>
  The shop in the store: the caller's option object at address 0, its \<open>axiosConfig\<close> at 1
  with a nested object at 2, an empty request body at 3; the instance the constructor
  builds; and a transport that leaves the store alone.
\<close>

definition shop_heap :: heap where
  "shop_heap = [[(''url'', HStr ''https://shop.example.com''), (''jwtToken'', HStr ''abc''),
                 (''axiosConfig'', HRef 1)],
                [(''proxy'', HRef 2)],
                [(''host'', HStr ''localhost'')],
                []]"

definition shop_instance :: hobj where
  "shop_instance = [(''classVersion'', HStr ''1.0.1''), (''url'', HStr ''https://shop.example.com''),
     (''wpAPIPrefix'', HStr ''wp-json''), (''version'', HStr ''wc/v3''), (''jwtToken'', HStr ''abc''),
     (''encoding'', HStr ''utf8''), (''port'', HStr []), (''timeout'', HUndefined),
     (''axiosConfig'', HRef 1)]"

definition shop_runtime :: runtime where
  "shop_runtime = \<lparr>rt_env = node_env, rt_stringify = (\<lambda>h v. Some ''{}''), rt_axios = (\<lambda>h sent. h)\<rparr>"

section \<open>Objects and spreads\<close>

lemma map_of_fold_update:
  "map_of (fold (\<lambda>(k, v). AList.update k v) es tgt) = map_of tgt ++ map_of (rev es)"
  by (induction es arbitrary: tgt)
    (auto simp: update_conv' fun_eq_iff map_add_def split: option.splits)

lemma map_of_rev_distinct:
  "distinct (map fst es) \<Longrightarrow> map_of (rev es) = map_of es"
  by (metis distinct_rev map_of_inject_set rev_map set_rev)

lemma map_of_own_props [simp]: "map_of (own_props kvs) = map_of kvs"
  by (simp add: own_props_def map_of_clearjunk)

lemma distinct_own_props [simp]: "distinct (map fst (own_props kvs))"
  by (simp add: own_props_def)

lemma map_of_assign_all: "map_of (assign_all src tgt) = map_of tgt ++ map_of src"
  by (simp add: assign_all_def map_of_fold_update map_of_rev_distinct)

lemma map_of_spread: "map_of (spread a b) = map_of a ++ map_of b"
  by (simp add: spread_def map_of_assign_all)

lemma shop_client_constructed: "constructor (Some shop_opt) = Inr shop_client"
  by (simp add: constructor_def shop_opt_def shop_client_def setDefaultsOptions_def new_instance_def)

section \<open>Strings\<close>

lemma slice_last_suffix: "slice_last s = ''/'' \<longleftrightarrow> suffix ''/'' s"
proof (induction s rule: slice_last.induct)
  case 1 show ?case by simp
next
  case (2 c) show ?case by (auto simp: suffix_def)
next
  case (3 c d ds)
  then show ?case by (auto simp: suffix_Cons)
qed

lemma find_first_SomeD: "find_first pat s = Some (b, a) \<Longrightarrow> s = b @ pat @ a"
proof (induction s arbitrary: b)
  case Nil
  then show ?case by (simp split: if_splits)
next
  case (Cons c cs)
  show ?case
  proof (cases "prefix pat (c # cs)")
    case True
    with Cons.prems have "b = []" "a = drop (length pat) (c # cs)" by simp_all
    moreover from True have "c # cs = pat @ drop (length pat) (c # cs)"
      by (metis append_eq_conv_conj prefixE)
    ultimately show ?thesis by simp
  next
    case False
    with Cons.prems obtain b' where "find_first pat cs = Some (b', a)" "b = c # b'"
      by auto
    with Cons.IH show ?thesis by simp
  qed
qed

lemma find_first_least:
  "find_first pat s = Some (b, a) \<Longrightarrow> s = b' @ pat @ a' \<Longrightarrow> length b \<le> length b'"
proof (induction s arbitrary: b b')
  case Nil
  then show ?case by (simp split: if_splits)
next
  case (Cons c cs)
  show ?case
  proof (cases "prefix pat (c # cs)")
    case True
    with Cons.prems(1) have "b = []" by simp
    then show ?thesis by simp
  next
    case False
    with Cons.prems(1) obtain b1 where b1: "find_first pat cs = Some (b1, a)" "b = c # b1"
      by auto
    from False Cons.prems(2) have "b' \<noteq> []" by (auto simp: prefix_def)
    then obtain b2 where b2: "b' = c # b2" "cs = b2 @ pat @ a'"
      using Cons.prems(2) by (cases b') auto
    from Cons.IH [OF b1(1) b2(2)] b1(2) b2(1) show ?thesis by simp
  qed
qed

lemma find_first_NoneD: "find_first pat s = None \<Longrightarrow> s \<noteq> b @ pat @ a"
proof (induction s arbitrary: b)
  case Nil
  then show ?case by (auto split: if_splits)
next
  case (Cons c cs)
  from Cons.prems have np: "\<not> prefix pat (c # cs)" and n: "find_first pat cs = None"
    by (auto split: if_splits)
  show ?case
  proof (cases b)
    case Nil
    with np show ?thesis by (auto simp: prefix_def)
  next
    case (Cons x b')
    with Cons.IH [OF n, of b'] show ?thesis by auto
  qed
qed

lemma get_substitution_plain:
  "CHR ''$'' \<notin> set t \<Longrightarrow> get_substitution m b a t = t"
  by (induction m b a t rule: get_substitution.induct) auto

lemma digit_not_dollar: "d < 10 \<Longrightarrow> CHR ''$'' \<noteq> char_of (48 + d)" for d :: nat
proof
  assume "d < 10" and eq: "CHR ''$'' = char_of (48 + d)"
  from eq have "of_char (char_of (48 + d) :: char) = (of_char (CHR ''$'') :: nat)" by simp
  with \<open>d < 10\<close> show False by simp
qed

lemma string_of_nat_plain: "CHR ''$'' \<notin> set (string_of_nat n)"
proof (induction n rule: string_of_nat.induct)
  case (1 n)
  show ?case
  proof (cases "n < 10")
    case True
    then show ?thesis by (subst string_of_nat.simps) (simp add: digit_not_dollar)
  next
    case False
    have "n mod 10 < 10" by simp
    with False 1 show ?thesis
      by (subst string_of_nat.simps) (simp add: digit_not_dollar)
  qed
qed

lemma string_of_int_plain: "CHR ''$'' \<notin> set (string_of_int i)"
  by (simp add: string_of_int_def string_of_nat_plain)

lemma string_of_int_8080: "string_of_int 8080 = ''8080''"
  by (simp add: string_of_int_def string_of_nat.simps char_of_def bit_iff_odd)

lemma port_client_constructed:
  "constructor (Some (shop_opt\<lparr>opt_url := Some ''https://shop.example.com/'', opt_port := Some 8080\<rparr>))
     = Inr (shop_client\<lparr>url := ''https://shop.example.com/'', port := JNum 8080\<rparr>)"
  by (simp add: constructor_def shop_opt_def shop_client_def setDefaultsOptions_def new_instance_def)

section \<open>URL composition\<close>

text \<open>
  C6. The URL is composed as base, prefix, version and endpoint, in that order. A base
  that does not end in \<open>/\<close> gets exactly one \<open>/\<close> before the prefix; a base that ends
  in \<open>/\<close> gets none. Without a port override the composed URL is the URL of the request. With
  base \<open>https://shop.example.com\<close>, prefix \<open>wp-json\<close>, version \<open>wc/v3\<close> and endpoint
  \<open>products\<close> it is \<open>https://shop.example.com/wp-json/wc/v3/products\<close>.
\<close>

theorem joined_order:
  "(\<not> suffix ''/'' (url c) \<longrightarrow>
      joined c endpoint = url c @ ''/'' @ wpAPIPrefix c @ ''/'' @ version c @ ''/'' @ endpoint)
   \<and> (suffix ''/'' (url c) \<longrightarrow>
      joined c endpoint = url c @ wpAPIPrefix c @ ''/'' @ version c @ ''/'' @ endpoint)
   \<and> (port c = JStr [] \<longrightarrow> getUrl e c endpoint = joined c endpoint)
   \<and> (constructor (Some \<lparr>opt_url = Some ''https://shop.example.com'', opt_jwtToken = Some t,
          opt_wpAPIPrefix = Some ''wp-json'', opt_version = Some ''wc/v3'', opt_encoding = enc,
          opt_port = None, opt_timeout = tmo, opt_axiosConfig = cfg\<rparr>) = Inr c \<longrightarrow>
        getUrl e c ''products'' = ''https://shop.example.com/wp-json/wc/v3/products'')"
  by (auto simp: joined_def getUrl_def slice_last_suffix constructor_def setDefaultsOptions_def
      new_instance_def suffix_def split: if_splits)

theorem joined_order_witness:
  "\<not> suffix ''/'' (url shop_client)
   \<and> joined shop_client ''products'' = ''https://shop.example.com/wp-json/wc/v3/products''
   \<and> suffix ''/'' (url (shop_client\<lparr>url := ''https://shop.example.com/''\<rparr>))
   \<and> joined (shop_client\<lparr>url := ''https://shop.example.com/''\<rparr>) ''products''
       = ''https://shop.example.com/wp-json/wc/v3/products''
   \<and> port shop_client = JStr []
   \<and> getUrl node_env shop_client ''products'' = ''https://shop.example.com/wp-json/wc/v3/products''"
  using joined_order [of shop_client "''products''" node_env "''abc''" None None None]
    joined_order [of "shop_client\<lparr>url := ''https://shop.example.com/''\<rparr>" "''products''" node_env "''abc''" None None None]
  by (simp add: shop_client_def suffix_def)

text \<open>
  C3, as the code has it. With a port configured (an integer below \<open>2^53\<close> in absolute
  value, printed in decimal) and the hostname string found in the composed URL, the rewrite
  replaces the first occurrence of the hostname string and nothing else: the text before that
  occurrence and the text after it, with any further occurrence of the hostname, are kept as
  they are. The replacement is \<open>hostname:port\<close> read as a template of \<open>replace\<close>, in
  which \<open>$$\<close>, \<open>$&\<close>, \<open>$`\<close> and \<open>$'\<close> are expanded; for a hostname without
  \<open>$\<close> it is \<open>hostname:port\<close> itself, that is, \<open>:port\<close> is spliced after the first
  occurrence. When the hostname string is not found in the composed URL, the URL is returned
  as composed.
\<close>

theorem port_first_occurrence:
  assumes "port c = JNum p" and "\<bar>p\<bar> < 2 ^ 53"
  shows "(find_first (hostname e (joined c endpoint)) (joined c endpoint) = Some (bef, aft) \<longrightarrow>
        joined c endpoint = bef @ hostname e (joined c endpoint) @ aft
        \<and> (\<forall>bef' aft'. joined c endpoint = bef' @ hostname e (joined c endpoint) @ aft'
              \<longrightarrow> length bef \<le> length bef')
        \<and> getUrl e c endpoint
            = bef @ get_substitution (hostname e (joined c endpoint)) bef aft
                      (hostname e (joined c endpoint) @ '':'' @ string_of_int p) @ aft
        \<and> (CHR ''$'' \<notin> set (hostname e (joined c endpoint)) \<longrightarrow>
              getUrl e c endpoint
                = bef @ hostname e (joined c endpoint) @ '':'' @ string_of_int p @ aft))
     \<and> (find_first (hostname e (joined c endpoint)) (joined c endpoint) = None \<longrightarrow>
        getUrl e c endpoint = joined c endpoint
        \<and> (\<forall>bef' aft'. joined c endpoint \<noteq> bef' @ hostname e (joined c endpoint) @ aft'))"
proof -
  let ?u = "joined c endpoint"
  let ?h = "hostname e ?u"
  have some: "?u = bef @ ?h @ aft
      \<and> (\<forall>bef' aft'. ?u = bef' @ ?h @ aft' \<longrightarrow> length bef \<le> length bef')
      \<and> getUrl e c endpoint = bef @ get_substitution ?h bef aft (?h @ '':'' @ string_of_int p) @ aft
      \<and> (CHR ''$'' \<notin> set ?h \<longrightarrow> getUrl e c endpoint = bef @ ?h @ '':'' @ string_of_int p @ aft)"
    if f: "find_first ?h ?u = Some (bef, aft)"
  proof -
    have split: "?u = bef @ ?h @ aft"
      using f by (rule find_first_SomeD)
    have least: "\<forall>bef' aft'. ?u = bef' @ ?h @ aft' \<longrightarrow> length bef \<le> length bef'"
      using f by (blast intro: find_first_least)
    have url: "getUrl e c endpoint
        = bef @ get_substitution ?h bef aft (?h @ '':'' @ string_of_int p) @ aft"
      using assms(1) f by (simp add: getUrl_def replace_def Let_def)
    have plain: "get_substitution ?h bef aft (?h @ '':'' @ string_of_int p) = ?h @ '':'' @ string_of_int p"
      if "CHR ''$'' \<notin> set ?h"
      by (rule get_substitution_plain) (simp add: string_of_int_plain that)
    from split least url plain show ?thesis by simp
  qed
  have none: "getUrl e c endpoint = ?u \<and> (\<forall>bef' aft'. ?u \<noteq> bef' @ ?h @ aft')"
    if f: "find_first ?h ?u = None"
  proof -
    have "getUrl e c endpoint = ?u"
      using assms(1) f by (simp add: getUrl_def replace_def Let_def)
    moreover have "\<forall>bef' aft'. ?u \<noteq> bef' @ ?h @ aft'"
      using f by (blast dest: find_first_NoneD)
    ultimately show ?thesis by simp
  qed
  from some none show ?thesis by blast
qed

text \<open>
  The claim as stated fails: with the hostname repeated as the endpoint, only the host gets
  the port; the path segment is unchanged.
\<close>

theorem port_first_occurrence_counterexample:
  "hostname node_env (joined (shop_client\<lparr>url := ''https://shop.example.com/'', port := JNum 8080\<rparr>)
       ''shop.example.com'') = ''shop.example.com''
   \<and> joined (shop_client\<lparr>url := ''https://shop.example.com/'', port := JNum 8080\<rparr>) ''shop.example.com''
       = ''https://shop.example.com/wp-json/wc/v3/shop.example.com''
   \<and> getUrl node_env (shop_client\<lparr>url := ''https://shop.example.com/'', port := JNum 8080\<rparr>)
       ''shop.example.com'' = ''https://shop.example.com:8080/wp-json/wc/v3/shop.example.com''
   \<and> getUrl node_env (shop_client\<lparr>url := ''https://shop.example.com/'', port := JNum 8080\<rparr>)
       ''shop.example.com'' \<noteq> ''https://shop.example.com:8080/wp-json/wc/v3/shop.example.com:8080''"
  by (simp add: getUrl_def joined_def replace_def node_env_def simple_hostname_def shop_client_def
      string_of_int_8080)

theorem port_first_occurrence_witness:
  "port (shop_client\<lparr>url := ''https://shop.example.com/'', port := JNum 8080\<rparr>) = JNum 8080
   \<and> \<bar>8080 :: int\<bar> < 2 ^ 53
   \<and> find_first
         (hostname node_env (joined (shop_client\<lparr>url := ''https://shop.example.com/'', port := JNum 8080\<rparr>)
            ''shop.example.com''))
         (joined (shop_client\<lparr>url := ''https://shop.example.com/'', port := JNum 8080\<rparr>) ''shop.example.com'')
       = Some (''https://'', ''/wp-json/wc/v3/shop.example.com'')
   \<and> CHR ''$'' \<notin> set (hostname node_env
         (joined (shop_client\<lparr>url := ''https://shop.example.com/'', port := JNum 8080\<rparr>) ''shop.example.com''))
   \<and> getUrl node_env (shop_client\<lparr>url := ''https://shop.example.com/'', port := JNum 8080\<rparr>)
         ''shop.example.com''
       = ''https://'' @ (''shop.example.com'' @ '':'' @ ''8080'') @ ''/wp-json/wc/v3/shop.example.com''
   \<and> find_first
         (hostname node_env (joined (shop_client\<lparr>url := ''http://a$&b/'', port := JNum 8080\<rparr>) ''products''))
         (joined (shop_client\<lparr>url := ''http://a$&b/'', port := JNum 8080\<rparr>) ''products'')
       = Some (''http://'', ''/wp-json/wc/v3/products'')
   \<and> getUrl node_env (shop_client\<lparr>url := ''http://a$&b/'', port := JNum 8080\<rparr>) ''products''
       = ''http://aa$&bb:8080/wp-json/wc/v3/products''"
proof -
  let ?c = "shop_client\<lparr>url := ''https://shop.example.com/'', port := JNum 8080\<rparr>"
  let ?d = "shop_client\<lparr>url := ''http://a$&b/'', port := JNum 8080\<rparr>"
  have j: "joined ?c ''shop.example.com'' = ''https://shop.example.com/wp-json/wc/v3/shop.example.com''"
    by (simp add: joined_def shop_client_def)
  have h: "hostname node_env (joined ?c ''shop.example.com'') = ''shop.example.com''"
    unfolding j by (simp add: node_env_def simple_hostname_def)
  have p: "port ?c = JNum 8080" "port ?d = JNum 8080" by simp_all
  have r: "\<bar>8080 :: int\<bar> < 2 ^ 53" by simp
  have f: "find_first (hostname node_env (joined ?c ''shop.example.com'')) (joined ?c ''shop.example.com'')
      = Some (''https://'', ''/wp-json/wc/v3/shop.example.com'')"
    unfolding h unfolding j by simp
  have jd: "joined ?d ''products'' = ''http://a$&b/wp-json/wc/v3/products''"
    by (simp add: joined_def shop_client_def)
  have hd: "hostname node_env (joined ?d ''products'') = ''a$&b''"
    unfolding jd by (simp add: node_env_def simple_hostname_def)
  have fd: "find_first (hostname node_env (joined ?d ''products'')) (joined ?d ''products'')
      = Some (''http://'', ''/wp-json/wc/v3/products'')"
    unfolding hd unfolding jd by simp
  from port_first_occurrence [OF p(1) r, of node_env "''shop.example.com''" "''https://''"
      "''/wp-json/wc/v3/shop.example.com''"]
    port_first_occurrence [OF p(2) r, of node_env "''products''" "''http://''" "''/wp-json/wc/v3/products''"]
  show ?thesis
    using p r f h fd hd by (simp add: string_of_int_8080)
qed

text \<open>
  C7. With port 8080 and base URL \<open>https://shop.example.com/\<close>, the URL composed for an
  endpoint starts with \<open>https://shop.example.com:8080/\<close>, and what follows the host is what
  follows it in the URL composed without the port.
\<close>

theorem port_8080:
  assumes "url c = ''https://shop.example.com/''"
    and "port c = JNum 8080"
    and "hostname e (joined c endpoint) = ''shop.example.com''"
  shows "joined c endpoint = ''https://shop.example.com/'' @ wpAPIPrefix c @ ''/'' @ version c @ ''/'' @ endpoint
    \<and> getUrl e c endpoint
       = ''https://shop.example.com:8080/'' @ wpAPIPrefix c @ ''/'' @ version c @ ''/'' @ endpoint"
proof -
  have j: "joined c endpoint
      = ''https://shop.example.com/'' @ wpAPIPrefix c @ ''/'' @ version c @ ''/'' @ endpoint"
    using assms(1) by (simp add: joined_def)
  have f: "find_first ''shop.example.com'' (joined c endpoint)
      = Some (''https://'', ''/'' @ wpAPIPrefix c @ ''/'' @ version c @ ''/'' @ endpoint)"
    unfolding j by simp
  show ?thesis
    using assms(2,3) f j by (simp add: getUrl_def replace_def string_of_int_8080)
qed

theorem port_8080_witness:
  "constructor (Some (shop_opt\<lparr>opt_url := Some ''https://shop.example.com/'', opt_port := Some 8080\<rparr>))
     = Inr (shop_client\<lparr>url := ''https://shop.example.com/'', port := JNum 8080\<rparr>)
   \<and> url (shop_client\<lparr>url := ''https://shop.example.com/'', port := JNum 8080\<rparr>)
       = ''https://shop.example.com/''
   \<and> port (shop_client\<lparr>url := ''https://shop.example.com/'', port := JNum 8080\<rparr>) = JNum 8080
   \<and> hostname node_env (joined (shop_client\<lparr>url := ''https://shop.example.com/'', port := JNum 8080\<rparr>)
         ''products'') = ''shop.example.com''
   \<and> getUrl node_env (shop_client\<lparr>url := ''https://shop.example.com/'', port := JNum 8080\<rparr>) ''products''
       = ''https://shop.example.com:8080/wp-json/wc/v3/products''"
proof -
  let ?c = "shop_client\<lparr>url := ''https://shop.example.com/'', port := JNum 8080\<rparr>"
  have u: "url ?c = ''https://shop.example.com/''" by simp
  have p: "port ?c = JNum 8080" by simp
  have h: "hostname node_env (joined ?c ''products'') = ''shop.example.com''"
    by (simp add: joined_def shop_client_def node_env_def simple_hostname_def)
  from port_8080 [OF u p h] have "getUrl node_env ?c ''products''
      = ''https://shop.example.com:8080/wp-json/wc/v3/products''"
    by (simp add: shop_client_def)
  with u p h port_client_constructed show ?thesis by simp
qed

section \<open>Construction\<close>

text \<open>
  C2. Construction raises an \<open>OptionsException\<close>, the only kind of error raised locally.
  In \<open>src/index.mjs\<close> it is raised exactly when \<open>url\<close> or \<open>jwtToken\<close> is absent or empty:
  with the message "url is required" when \<open>url\<close> is, and "jwtToken is required" when \<open>url\<close> is
  supplied and \<open>jwtToken\<close> is not. Construction succeeds exactly when both are supplied.
  In the compiled build, whose check of \<open>jwtToken\<close> is commented out, it is raised exactly
  when \<open>url\<close> is absent or empty.
\<close>

theorem constructor_raises:
  "((\<exists>c. constructor (Some p) = Inr c) \<longleftrightarrow> given (opt_url p) \<and> given (opt_jwtToken p))
   \<and> (constructor (Some p) = Inl (OptionsException ''url is required'') \<longleftrightarrow> \<not> given (opt_url p))
   \<and> (constructor (Some p) = Inl (OptionsException ''jwtToken is required'')
        \<longleftrightarrow> given (opt_url p) \<and> \<not> given (opt_jwtToken p))
   \<and> constructor None = Inl (OptionsException ''url is required'')
   \<and> ((\<exists>c. constructor_cjs (Some p) = Inr c) \<longleftrightarrow> given (opt_url p))
   \<and> (constructor_cjs (Some p) = Inl (OptionsException ''url is required'') \<longleftrightarrow> \<not> given (opt_url p))
   \<and> constructor_cjs None = Inl (OptionsException ''url is required'')"
  by (simp add: constructor_def constructor_cjs_def no_opt_def)

text \<open>
  The claim as stated fails in \<open>src/index.mjs\<close>: a configuration that supplies \<open>url\<close> and
  no \<open>jwtToken\<close> is refused.
\<close>

theorem constructor_token_counterexample:
  "constructor (Some (no_opt\<lparr>opt_url := Some ''https://shop.example.com''\<rparr>))
     = Inl (OptionsException ''jwtToken is required'')"
  by (simp add: constructor_def no_opt_def)

theorem constructor_raises_witness:
  "constructor (Some (no_opt\<lparr>opt_url := Some ''https://shop.example.com'', opt_jwtToken := Some ''abc''\<rparr>))
     = Inr \<lparr>classVersion = ''1.0.1'', url = ''https://shop.example.com'', wpAPIPrefix = ''wp-json'',
            version = ''wc/v3'', jwtToken = Some ''abc'', encoding = ''utf8'', port = JStr [],
            timeout = None, axiosConfig = []\<rparr>
   \<and> constructor (Some (no_opt\<lparr>opt_jwtToken := Some ''abc''\<rparr>)) = Inl (OptionsException ''url is required'')
   \<and> (\<exists>c. constructor_cjs (Some (no_opt\<lparr>opt_url := Some ''https://shop.example.com''\<rparr>)) = Inr c)"
  using constructor_raises [of "no_opt\<lparr>opt_url := Some ''https://shop.example.com'', opt_jwtToken := Some ''abc''\<rparr>"]
    constructor_raises [of "no_opt\<lparr>opt_jwtToken := Some ''abc''\<rparr>"]
    constructor_raises [of "no_opt\<lparr>opt_url := Some ''https://shop.example.com''\<rparr>"]
  by (simp add: no_opt_def constructor_def setDefaultsOptions_def new_instance_def)

section \<open>The assembled request\<close>

lemma assemble_eq:
  "assemble e c m ep d ps =
     [(''url'', JStr (getUrl e c ep)), (''method'', JStr m),
      (''responseEncoding'', JStr (encoding c)), (''timeout'', timeout_val c),
      (''responseType'', JStr ''json''),
      (''headers'', JObj ([(''Accept'', JStr ''application/json'')]
          @ (if is_node e then [(''User-Agent'', JStr (''WooCommerce REST API - JS Client/'' @ classVersion c))] else [])
          @ [(''Authorization'', JStr (''Bearer '' @ token_text c))]
          @ (if truthy d then [(''Content-Type'', JStr ''application/json;charset=utf-8'')] else []))),
      (''params'', JObj (spread [] (default_params ps)))]
     @ (if truthy d then [(''data'', JStr (stringify e d))] else [])"
  by (simp add: assemble_def set_header_def get_prop_def Let_def)

lemma assemble_cjs_eq:
  "assemble_cjs e c m ep d ps =
     [(''url'', JStr (getUrl e c ep)), (''method'', JStr m),
      (''responseEncoding'', JStr (encoding c)), (''timeout'', timeout_val c),
      (''responseType'', JStr ''json''),
      (''headers'', JObj ([(''Accept'', JStr ''application/json'')]
          @ (if is_node e then [(''User-Agent'', JStr (''WooCommerce REST API - JS Client/'' @ classVersion c))] else [])
          @ (if given (jwtToken c) then [(''Authorization'', JStr (''Bearer '' @ token_text c))] else [])
          @ (if truthy d then [(''Content-Type'', JStr ''application/json;charset=utf-8'')] else []))),
      (''params'', JObj (spread [] (default_params ps)))]
     @ (if truthy d then [(''data'', JStr (stringify e d))] else [])"
  by (simp add: assemble_cjs_def set_header_def get_prop_def Let_def)

lemma request_lookup:
  "map_of (request e c m ep d ps) k =
     (case map_of (axiosConfig c) k of None \<Rightarrow> map_of (assemble e c m ep d ps) k | Some v \<Rightarrow> Some v)"
  by (simp add: request_def map_of_spread map_add_def)

lemma request_cjs_lookup:
  "map_of (request_cjs e c m ep d ps) k =
     (case map_of (axiosConfig c) k of None \<Rightarrow> map_of (assemble_cjs e c m ep d ps) k | Some v \<Rightarrow> Some v)"
  by (simp add: request_cjs_def map_of_spread map_add_def)

lemma assemble_params:
  "map_of (assemble e c m ep d ps) ''params'' = Some (JObj (spread [] (default_params ps)))"
  by (simp add: assemble_eq)

lemma assemble_data:
  "map_of (assemble e c m ep d ps) ''data'' = (if truthy d then Some (JStr (stringify e d)) else None)"
  by (simp add: assemble_eq)

lemma assemble_method:
  "map_of (assemble e c m ep d ps) ''method'' = Some (JStr m)"
  by (simp add: assemble_eq)

lemma assemble_headers:
  "map_of (assemble e c m ep d ps) ''headers'' =
     Some (JObj ([(''Accept'', JStr ''application/json'')]
          @ (if is_node e then [(''User-Agent'', JStr (''WooCommerce REST API - JS Client/'' @ classVersion c))] else [])
          @ [(''Authorization'', JStr (''Bearer '' @ token_text c))]
          @ (if truthy d then [(''Content-Type'', JStr ''application/json;charset=utf-8'')] else [])))"
  by (simp add: assemble_eq)

lemma assemble_cjs_headers:
  "map_of (assemble_cjs e c m ep d ps) ''headers'' =
     Some (JObj ([(''Accept'', JStr ''application/json'')]
          @ (if is_node e then [(''User-Agent'', JStr (''WooCommerce REST API - JS Client/'' @ classVersion c))] else [])
          @ (if given (jwtToken c) then [(''Authorization'', JStr (''Bearer '' @ token_text c))] else [])
          @ (if truthy d then [(''Content-Type'', JStr ''application/json;charset=utf-8'')] else [])))"
  by (simp add: assemble_cjs_eq)

lemma request_authorization:
  "map_of (axiosConfig c) ''headers'' = None \<Longrightarrow>
   header_of (request e c m ep d ps) ''Authorization'' = Some (JStr (''Bearer '' @ token_text c))"
  by (simp add: header_of_def request_lookup assemble_headers)

lemma request_cjs_authorization:
  "map_of (axiosConfig c) ''headers'' = None \<Longrightarrow>
   header_of (request_cjs e c m ep d ps) ''Authorization''
     = (if given (jwtToken c) then Some (JStr (''Bearer '' @ token_text c)) else None)"
  by (simp add: header_of_def request_cjs_lookup assemble_cjs_headers)

lemma request_content_type:
  "map_of (axiosConfig c) ''headers'' = None \<Longrightarrow>
   header_of (request e c m ep d ps) ''Content-Type''
     = (if truthy d then Some (JStr ''application/json;charset=utf-8'') else None)"
  by (simp add: header_of_def request_lookup assemble_headers)

lemma perform_request:
  "\<exists>m ep d. snd (perform e c cl) = request e c m ep d (Some (call_params cl))"
  by (cases cl) (auto simp: get_def post_def put_def delete_def options_def)

section \<open>Transport overrides\<close>

text \<open>
  C5. The entries of \<open>axiosConfig\<close> win over the assembled options, key by key at the top
  level: for every key of the override map the dispatched option is the override's value as
  a whole (the \<open>headers\<close> of an override replace the assembled headers, they are not merged
  with them), and every other key keeps its assembled value. An override of \<open>method\<close> is the
  dispatched method.
\<close>

theorem override_wins:
  "(map_of (axiosConfig c) k = Some v \<longrightarrow>
      map_of (request e c m ep d ps) k = Some v \<and> map_of (request_cjs e c m ep d ps) k = Some v
      \<and> map_of (snd (perform e c cl)) k = Some v)
   \<and> (map_of (axiosConfig c) k = None \<longrightarrow>
      map_of (request e c m ep d ps) k = map_of (assemble e c m ep d ps) k)
   \<and> (map_of (axiosConfig c) ''method'' = Some v \<longrightarrow>
      map_of (request e c m ep d ps) ''method'' = Some v)
   \<and> (map_of (axiosConfig c) ''headers'' = Some (JObj h) \<longrightarrow>
      header_of (request e c m ep d ps) name = map_of h name)"
proof -
  obtain m' ep' d' where "snd (perform e c cl) = request e c m' ep' d' (Some (call_params cl))"
    using perform_request by blast
  then show ?thesis
    by (simp add: request_lookup request_cjs_lookup header_of_def)
qed

theorem override_wins_witness:
  "map_of (axiosConfig (shop_client\<lparr>axiosConfig := [(''method'', JStr ''patch''), (''headers'', JObj [(''X-Shop'', JStr ''1'')])]\<rparr>))
      ''method'' = Some (JStr ''patch'')
   \<and> map_of (get node_env (shop_client\<lparr>axiosConfig := [(''method'', JStr ''patch''), (''headers'', JObj [(''X-Shop'', JStr ''1'')])]\<rparr>)
        ''products'' None) ''method'' = Some (JStr ''patch'')
   \<and> map_of (get node_env (shop_client\<lparr>axiosConfig := [(''method'', JStr ''patch''), (''headers'', JObj [(''X-Shop'', JStr ''1'')])]\<rparr>)
        ''products'' None) ''headers'' = Some (JObj [(''X-Shop'', JStr ''1'')])
   \<and> map_of (axiosConfig (shop_client\<lparr>axiosConfig := [(''method'', JStr ''patch''), (''headers'', JObj [(''X-Shop'', JStr ''1'')])]\<rparr>))
      ''url'' = None
   \<and> map_of (get node_env (shop_client\<lparr>axiosConfig := [(''method'', JStr ''patch''), (''headers'', JObj [(''X-Shop'', JStr ''1'')])]\<rparr>)
        ''products'' None) ''url'' = Some (JStr ''https://shop.example.com/wp-json/wc/v3/products'')"
proof -
  let ?c = "shop_client\<lparr>axiosConfig := [(''method'', JStr ''patch''), (''headers'', JObj [(''X-Shop'', JStr ''1'')])]\<rparr>"
  have u: "getUrl node_env ?c ''products'' = ''https://shop.example.com/wp-json/wc/v3/products''"
    by (simp add: getUrl_def joined_def shop_client_def)
  have a: "map_of (assemble node_env ?c ''get'' ''products'' JNull (Some (default_params None))) ''url''
      = Some (JStr ''https://shop.example.com/wp-json/wc/v3/products'')"
    by (simp add: assemble_eq u)
  show ?thesis
    using override_wins [of ?c "''method''" "JStr ''patch''" node_env "''get''" "''products''" JNull
        "Some (default_params None)" "Get ''products'' None" "[(''X-Shop'', JStr ''1'')]" "''X-Shop''"]
      override_wins [of ?c "''headers''" "JObj [(''X-Shop'', JStr ''1'')]" node_env "''get''" "''products''" JNull
        "Some (default_params None)" "Get ''products'' None" "[(''X-Shop'', JStr ''1'')]" "''X-Shop''"]
      override_wins [of ?c "''url''" JNull node_env "''get''" "''products''" JNull
        "Some (default_params None)" "Get ''products'' None" "[(''X-Shop'', JStr ''1'')]" "''X-Shop''"]
      a
    by (simp add: get_def)
qed

section \<open>Headers and body\<close>

text \<open>
  C4, as the code has it: for a client built by the constructor whose \<open>axiosConfig\<close> has no
  \<open>headers\<close> entry. In \<open>src/index.mjs\<close> every such client has a token, and every
  request carries \<open>Authorization: Bearer <token>\<close>. In the compiled build a client with a
  token sends the same header, and a client without one sends no \<open>Authorization\<close> header.
\<close>

theorem authorization_header:
  "(constructor (Some p) = Inr c \<and> map_of (axiosConfig c) ''headers'' = None \<longrightarrow>
      (\<exists>t. opt_jwtToken p = Some t \<and> t \<noteq> []
         \<and> header_of (request e c m ep d ps) ''Authorization'' = Some (JStr (''Bearer '' @ t))))
   \<and> (constructor_cjs (Some p) = Inr c \<and> map_of (axiosConfig c) ''headers'' = None \<longrightarrow>
      (\<forall>t. opt_jwtToken p = Some t \<and> t \<noteq> [] \<longrightarrow>
         header_of (request_cjs e c m ep d ps) ''Authorization'' = Some (JStr (''Bearer '' @ t)))
      \<and> (\<not> given (opt_jwtToken p) \<longrightarrow>
         header_of (request_cjs e c m ep d ps) ''Authorization'' = None))"
proof -
  have mjs: "\<exists>t. opt_jwtToken p = Some t \<and> t \<noteq> []
         \<and> header_of (request e c m ep d ps) ''Authorization'' = Some (JStr (''Bearer '' @ t))"
    if "constructor (Some p) = Inr c" "map_of (axiosConfig c) ''headers'' = None"
  proof -
    from that(1) have g: "given (opt_jwtToken p)" and j: "jwtToken c = opt_jwtToken p"
      by (auto simp: constructor_def setDefaultsOptions_def split: if_splits)
    from g obtain t where t: "opt_jwtToken p = Some t" "t \<noteq> []"
      by (cases "opt_jwtToken p") auto
    with j have "token_text c = t" by (simp add: token_text_def)
    with request_authorization [OF that(2)] t show ?thesis by simp
  qed
  have cjs: "header_of (request_cjs e c m ep d ps) ''Authorization''
      = (if given (opt_jwtToken p) then Some (JStr (''Bearer '' @ token_text c)) else None)
      \<and> jwtToken c = opt_jwtToken p"
    if "constructor_cjs (Some p) = Inr c" "map_of (axiosConfig c) ''headers'' = None"
  proof -
    from that(1) have j: "jwtToken c = opt_jwtToken p"
      by (auto simp: constructor_cjs_def setDefaultsOptions_def split: if_splits)
    with request_cjs_authorization [OF that(2)] show ?thesis by simp
  qed
  from mjs cjs show ?thesis
    by (auto simp: token_text_def)
qed

text \<open>
  The claim as stated fails: an \<open>axiosConfig\<close> with its own \<open>headers\<close> replaces the
  assembled headers, and the request of a client with a token goes out without
  \<open>Authorization\<close>.
\<close>

theorem authorization_header_counterexample:
  "constructor (Some (shop_opt\<lparr>opt_axiosConfig := Some [(''headers'', JObj [])]\<rparr>))
     = Inr (shop_client\<lparr>axiosConfig := [(''headers'', JObj [])]\<rparr>)
   \<and> jwtToken (shop_client\<lparr>axiosConfig := [(''headers'', JObj [])]\<rparr>) = Some ''abc''
   \<and> header_of (get node_env (shop_client\<lparr>axiosConfig := [(''headers'', JObj [])]\<rparr>) ''products'' None)
        ''Authorization'' = None"
  by (simp add: constructor_def shop_opt_def shop_client_def setDefaultsOptions_def new_instance_def
      get_def header_of_def request_lookup)

theorem authorization_header_witness:
  "constructor (Some shop_opt) = Inr shop_client
   \<and> map_of (axiosConfig shop_client) ''headers'' = None
   \<and> opt_jwtToken shop_opt = Some ''abc''
   \<and> header_of (request node_env shop_client ''get'' ''products'' JNull None) ''Authorization''
       = Some (JStr ''Bearer abc'')
   \<and> constructor_cjs (Some (shop_opt\<lparr>opt_jwtToken := None\<rparr>)) = Inr (shop_client\<lparr>jwtToken := None\<rparr>)
   \<and> header_of (request_cjs node_env (shop_client\<lparr>jwtToken := None\<rparr>) ''get'' ''products'' JNull None)
        ''Authorization'' = None"
proof -
  have c2: "constructor_cjs (Some (shop_opt\<lparr>opt_jwtToken := None\<rparr>)) = Inr (shop_client\<lparr>jwtToken := None\<rparr>)"
    by (simp add: constructor_cjs_def shop_opt_def shop_client_def setDefaultsOptions_def new_instance_def)
  have a: "map_of (axiosConfig shop_client) ''headers'' = None"
      "map_of (axiosConfig (shop_client\<lparr>jwtToken := None\<rparr>)) ''headers'' = None"
      "opt_jwtToken shop_opt = Some ''abc''" "opt_jwtToken (shop_opt\<lparr>opt_jwtToken := None\<rparr>) = None"
    by (simp_all add: shop_client_def shop_opt_def)
  show ?thesis
    using authorization_header [of shop_opt shop_client node_env "''get''" "''products''" JNull None]
      authorization_header [of "shop_opt\<lparr>opt_jwtToken := None\<rparr>" "shop_client\<lparr>jwtToken := None\<rparr>"
        node_env "''get''" "''products''" JNull None]
      shop_client_constructed c2 a
    by simp
qed

lemma falsy_cases:
  "\<not> truthy d \<longleftrightarrow> d = JUndefined \<or> d = JNull \<or> d = JBool False \<or> d = JNum 0 \<or> d = JStr []"
  by (cases d) auto

text \<open>
  C8, as the code has it: for a client whose \<open>axiosConfig\<close> has no \<open>headers\<close> and no
  \<open>data\<close> entry. The test on the body is \<open>if (data)\<close>: a body that is truthy gets
  \<open>Content-Type: application/json;charset=utf-8\<close> and a \<open>data\<close> field with its JSON
  serialization; for a body that is \<open>undefined\<close>, \<open>null\<close>, \<open>false\<close>, \<open>0\<close> or the
  empty string both are left out.
\<close>

theorem body_headers:
  assumes "map_of (axiosConfig c) ''headers'' = None"
    and "map_of (axiosConfig c) ''data'' = None"
  shows "(truthy d \<longrightarrow>
        header_of (request e c m ep d ps) ''Content-Type'' = Some (JStr ''application/json;charset=utf-8'')
        \<and> map_of (request e c m ep d ps) ''data'' = Some (JStr (stringify e d)))
     \<and> (\<not> truthy d \<longrightarrow>
        header_of (request e c m ep d ps) ''Content-Type'' = None
        \<and> map_of (request e c m ep d ps) ''data'' = None)
     \<and> (\<not> truthy d \<longleftrightarrow>
        d = JUndefined \<or> d = JNull \<or> d = JBool False \<or> d = JNum 0 \<or> d = JStr [])"
  using request_content_type [OF assms(1), of e m ep d ps] assms(2) falsy_cases [of d]
  by (simp add: request_lookup assemble_data)

text \<open>
  The claim as stated fails: the body \<open>0\<close> is not null, and is sent with neither the header
  nor a \<open>data\<close> field; and a \<open>data\<close> entry of \<open>axiosConfig\<close> is dispatched with a
  request that has no body.
\<close>

theorem body_headers_counterexample:
  "header_of (post node_env shop_client ''products'' (JNum 0) None) ''Content-Type'' = None
   \<and> map_of (post node_env shop_client ''products'' (JNum 0) None) ''data'' = None
   \<and> map_of (get node_env (shop_client\<lparr>axiosConfig := [(''data'', JStr ''x'')]\<rparr>) ''products'' None) ''data''
       = Some (JStr ''x'')"
proof -
  have a: "map_of (axiosConfig shop_client) ''headers'' = None"
    "map_of (axiosConfig shop_client) ''data'' = None"
    by (simp_all add: shop_client_def)
  have "header_of (post node_env shop_client ''products'' (JNum 0) None) ''Content-Type'' = None"
    using request_content_type [OF a(1)] by (simp add: post_def)
  moreover have "map_of (post node_env shop_client ''products'' (JNum 0) None) ''data'' = None"
    using a(2) by (simp add: post_def request_lookup assemble_data)
  moreover have "map_of (get node_env (shop_client\<lparr>axiosConfig := [(''data'', JStr ''x'')]\<rparr>) ''products'' None)
      ''data'' = Some (JStr ''x'')"
    by (simp add: get_def request_lookup)
  ultimately show ?thesis by simp
qed

theorem body_headers_witness:
  "map_of (axiosConfig shop_client) ''headers'' = None
   \<and> map_of (axiosConfig shop_client) ''data'' = None
   \<and> truthy (JObj [])
   \<and> header_of (request node_env shop_client ''post'' ''products'' (JObj []) None) ''Content-Type''
       = Some (JStr ''application/json;charset=utf-8'')
   \<and> map_of (request node_env shop_client ''post'' ''products'' (JObj []) None) ''data'' = Some (JStr ''{}'')
   \<and> \<not> truthy JNull
   \<and> header_of (request node_env shop_client ''get'' ''products'' JNull None) ''Content-Type'' = None
   \<and> map_of (request node_env shop_client ''get'' ''products'' JNull None) ''data'' = None"
proof -
  have a: "map_of (axiosConfig shop_client) ''headers'' = None"
    "map_of (axiosConfig shop_client) ''data'' = None"
    by (simp_all add: shop_client_def)
  show ?thesis
    using body_headers [OF a, of "JObj []" node_env "''post''" "''products''" None]
      body_headers [OF a, of JNull node_env "''get''" "''products''" None] a
    by (simp add: node_env_def)
qed

section \<open>Parameters\<close>

lemma fold_parse_item:
  "fold (parse_item key) ps q
     = fold (\<lambda>(k, v). AList.update k v) (map (\<lambda>(prop, w). (key @ ''['' @ prop @ '']'', w)) ps) q"
  by (induction ps arbitrary: q) (auto simp: parse_item_def)

lemma map_of_parse_param:
  "map_of (parse_param x q) = map_of q ++ map_of (rev (flat_code x))"
proof (cases x)
  case (Pair key v)
  show ?thesis
  proof (cases "typeof v = ''object''")
    case True
    with Pair show ?thesis
      by (simp add: parse_param_def flat_code_def fold_parse_item map_of_fold_update)
  next
    case False
    with Pair show ?thesis
      by (simp add: parse_param_def flat_code_def update_conv' fun_eq_iff map_add_def)
  qed
qed

lemma map_of_fold_parse_param:
  "map_of (fold parse_param es q) = map_of q ++ map_of (rev (concat (map flat_code es)))"
proof (induction es arbitrary: q)
  case Nil
  show ?case by simp
next
  case (Cons x es)
  show ?case
    by (simp add: Cons.IH map_of_parse_param)
qed

lemma own_props_lookup:
  "(k, v) \<in> set (own_props ps) \<Longrightarrow> map_of ps k = Some v"
  using map_of_is_SomeI [of "own_props ps" k v] by simp

lemma flat_code_not_null: "v \<noteq> JNull \<Longrightarrow> flat_code (k, v) = flatten_entry (k, v)"
  by (cases v) (simp_all add: flat_code_def)

lemma flat_code_scalar: "typeof v \<noteq> ''object'' \<Longrightarrow> flat_code (k, v) = [(k, v)]"
  by (simp add: flat_code_def)

lemma concat_flat_code:
  assumes "\<forall>k. map_of ps k \<noteq> Some JNull"
  shows "concat (map flat_code (own_props ps)) = flattenParams ps"
proof -
  have "map flat_code (own_props ps) = map flatten_entry (own_props ps)"
  proof (rule map_cong [OF refl])
    fix x assume x: "x \<in> set (own_props ps)"
    obtain k v where kv: "x = (k, v)" by (cases x)
    with x own_props_lookup have "map_of ps k = Some v" by blast
    with assms have "v \<noteq> JNull" by auto
    with kv show "flat_code x = flatten_entry x" by (simp add: flat_code_not_null)
  qed
  then have "concat (map flat_code (own_props ps)) = concat (map flatten_entry (own_props ps))"
    by (rule arg_cong)
  then show ?thesis by (simp only: flattenParams_def)
qed

lemma parse_flatten:
  assumes "\<forall>k. map_of ps k \<noteq> Some JNull" and "distinct (map fst (flattenParams ps))"
  shows "map_of (parseParamsObject ps q) = map_of q ++ map_of (flattenParams ps)"
  using assms
  by (simp add: parseParamsObject_def map_of_fold_parse_param concat_flat_code map_of_rev_distinct)

lemma parse_scalars:
  assumes "\<forall>k v. map_of ps k = Some v \<longrightarrow> typeof v \<noteq> ''object''"
  shows "map_of (parseParamsObject ps []) = map_of ps"
proof -
  have "map flat_code (own_props ps) = map (\<lambda>x. [x]) (own_props ps)"
  proof (rule map_cong [OF refl])
    fix x assume x: "x \<in> set (own_props ps)"
    obtain k v where kv: "x = (k, v)" by (cases x)
    with x own_props_lookup have "map_of ps k = Some v" by blast
    with assms have "typeof v \<noteq> ''object''" by auto
    with kv show "flat_code x = [x]" by (simp add: flat_code_scalar)
  qed
  then have "concat (map flat_code (own_props ps)) = concat (map (\<lambda>x. [x]) (own_props ps))"
    by (rule arg_cong)
  also have "\<dots> = own_props ps" by (induction "own_props ps") simp_all
  finally have "concat (map flat_code (own_props ps)) = own_props ps" .
  then show ?thesis
    by (simp add: parseParamsObject_def map_of_fold_parse_param map_of_rev_distinct)
qed

text \<open>
  C9, as the code has it. \<open>_parseParamsObject\<close> maps
  \<open>{status: "publish", meta: {key: "color", value: "red"}}\<close> to
  \<open>{status: "publish", "meta[key]": "color", "meta[value]": "red"}\<close>. In general, for
  parameters with no \<open>null\<close> value and no two flattened keys alike, the result holds
  what \<open>query\<close> held and the flattening of the specification: each property of a nested object
  under \<open>key[subkey]\<close>, one level deep, and every other value under its own key.
\<close>

theorem flatten_one_level:
  "parseParamsObject [(''status'', JStr ''publish''),
        (''meta'', JObj [(''key'', JStr ''color''), (''value'', JStr ''red'')])] []
     = [(''status'', JStr ''publish''), (''meta[key]'', JStr ''color''), (''meta[value]'', JStr ''red'')]
   \<and> ((\<forall>k. map_of params k \<noteq> Some JNull) \<and> distinct (map fst (flattenParams params)) \<longrightarrow>
        map_of (parseParamsObject params query) = map_of query ++ map_of (flattenParams params))"
proof -
  have "parseParamsObject [(''status'', JStr ''publish''),
        (''meta'', JObj [(''key'', JStr ''color''), (''value'', JStr ''red'')])] []
     = [(''status'', JStr ''publish''), (''meta[key]'', JStr ''color''), (''meta[value]'', JStr ''red'')]"
    by (simp add: parseParamsObject_def own_props_def parse_param_def parse_item_def)
  with parse_flatten show ?thesis by blast
qed

text \<open>
  The claim as stated fails: \<open>typeof null\<close> is \<open>"object"\<close>, so a \<open>null\<close> value is
  enumerated like an object and its key is dropped; and a key written twice keeps the last
  value written.
\<close>

theorem flatten_one_level_counterexample:
  "parseParamsObject [(''a'', JNull)] [] = []
   \<and> flattenParams [(''a'', JNull)] = [(''a'', JNull)]
   \<and> parseParamsObject [(''a[b]'', JNum 1), (''a'', JObj [(''b'', JNum 2)])] [] = [(''a[b]'', JNum 2)]"
  by (simp add: parseParamsObject_def own_props_def parse_param_def parse_item_def flattenParams_def)

theorem flatten_one_level_witness:
  "(\<forall>k. map_of [(''a'', JObj [(''b'', JObj [(''c'', JNum 1)])]), (''page'', JNum 2)] k \<noteq> Some JNull)
   \<and> distinct (map fst (flattenParams [(''a'', JObj [(''b'', JObj [(''c'', JNum 1)])]), (''page'', JNum 2)]))
   \<and> flattenParams [(''a'', JObj [(''b'', JObj [(''c'', JNum 1)])]), (''page'', JNum 2)]
       = [(''a[b]'', JObj [(''c'', JNum 1)]), (''page'', JNum 2)]
   \<and> map_of (parseParamsObject [(''a'', JObj [(''b'', JObj [(''c'', JNum 1)])]), (''page'', JNum 2)] [])
       = map_of [(''a[b]'', JObj [(''c'', JNum 1)]), (''page'', JNum 2)]"
proof -
  let ?ps = "[(''a'', JObj [(''b'', JObj [(''c'', JNum 1)])]), (''page'', JNum 2)]"
  have f: "flattenParams ?ps = [(''a[b]'', JObj [(''c'', JNum 1)]), (''page'', JNum 2)]"
    by (simp add: flattenParams_def own_props_def)
  have n: "\<forall>k. map_of ?ps k \<noteq> Some JNull" by simp
  have d: "distinct (map fst (flattenParams ?ps))" unfolding f by simp
  from flatten_one_level [of ?ps "[]"] n d f show ?thesis by simp
qed

text \<open>
  C1, as the code has it: for a client whose \<open>axiosConfig\<close> has no \<open>params\<close> entry, the
  query mapping handed to the transport by \<open>get\<close>, \<open>post\<close>, \<open>put\<close>, \<open>delete\<close>
  and \<open>options\<close> holds the parameters as they were passed, every key with its own value;
  \<open>_request\<close> does not call \<open>_parseParamsObject\<close>. When no value is an object or
  \<open>null\<close>, this is also the flattened form.
\<close>

theorem params_passed_through:
  assumes "map_of (axiosConfig c) ''params'' = None"
  shows "\<exists>q. map_of (snd (perform e c cl)) ''params'' = Some (JObj q)
      \<and> map_of q = map_of (call_params cl)
      \<and> ((\<forall>k v. map_of (call_params cl) k = Some v \<longrightarrow> typeof v \<noteq> ''object'') \<longrightarrow>
           map_of q = map_of (parseParamsObject (call_params cl) []))"
proof -
  obtain m ep d where r: "snd (perform e c cl) = request e c m ep d (Some (call_params cl))"
    using perform_request by blast
  let ?q = "spread [] (call_params cl)"
  have "map_of (snd (perform e c cl)) ''params'' = Some (JObj ?q)"
    using assms by (simp add: r request_lookup assemble_params default_params_def)
  moreover have "map_of ?q = map_of (call_params cl)"
    by (simp add: map_of_spread)
  ultimately show ?thesis
    using parse_scalars [of "call_params cl"] by auto
qed

text \<open>
  The claim as stated fails: a nested object is handed over under its own key, not under
  bracketed keys; and a \<open>params\<close> entry of \<open>axiosConfig\<close> replaces the parameters of the
  call.
\<close>

theorem params_passed_through_counterexample:
  "map_of (get node_env shop_client ''products'' (Some [(''meta'', JObj [(''key'', JStr ''color'')])])) ''params''
     = Some (JObj [(''meta'', JObj [(''key'', JStr ''color'')])])
   \<and> parseParamsObject [(''meta'', JObj [(''key'', JStr ''color'')])] [] = [(''meta[key]'', JStr ''color'')]
   \<and> flattenParams [(''meta'', JObj [(''key'', JStr ''color'')])] = [(''meta[key]'', JStr ''color'')]
   \<and> map_of (get node_env (shop_client\<lparr>axiosConfig := [(''params'', JObj [])]\<rparr>) ''products''
        (Some [(''page'', JNum 2)])) ''params'' = Some (JObj [])"
proof -
  have "map_of (axiosConfig shop_client) ''params'' = None" by (simp add: shop_client_def)
  then have "map_of (get node_env shop_client ''products'' (Some [(''meta'', JObj [(''key'', JStr ''color'')])])) ''params''
     = Some (JObj [(''meta'', JObj [(''key'', JStr ''color'')])])"
    by (simp add: get_def request_lookup assemble_params default_params_def spread_def assign_all_def
        own_props_def)
  moreover have "map_of (get node_env (shop_client\<lparr>axiosConfig := [(''params'', JObj [])]\<rparr>) ''products''
        (Some [(''page'', JNum 2)])) ''params'' = Some (JObj [])"
    by (simp add: get_def request_lookup)
  ultimately show ?thesis
    by (simp add: parseParamsObject_def own_props_def parse_param_def parse_item_def flattenParams_def)
qed

theorem params_passed_through_witness:
  "map_of (axiosConfig shop_client) ''params'' = None
   \<and> (\<exists>q. map_of (snd (perform node_env shop_client (Get ''products'' (Some [(''status'', JStr ''publish'')]))))
          ''params'' = Some (JObj q)
        \<and> map_of q = map_of [(''status'', JStr ''publish'')]
        \<and> map_of q = map_of (parseParamsObject [(''status'', JStr ''publish'')] []))"
proof -
  have a: "map_of (axiosConfig shop_client) ''params'' = None" by (simp add: shop_client_def)
  have s: "\<forall>k v. map_of (call_params (Get ''products'' (Some [(''status'', JStr ''publish'')]))) k = Some v
      \<longrightarrow> typeof v \<noteq> ''object''"
    by (simp add: default_params_def)
  from params_passed_through [OF a, of node_env "Get ''products'' (Some [(''status'', JStr ''publish'')])"] s a
  show ?thesis by (auto simp: default_params_def)
qed

section \<open>The configuration after calls\<close>

lemma prefix_alloc: "prefix h0 h \<Longrightarrow> prefix h0 (fst (alloc ob h))"
  by (simp add: alloc_def)

lemma prefix_update: "prefix h0 h \<Longrightarrow> length h0 \<le> a \<Longrightarrow> prefix h0 (h[a := x])"
  by (auto simp: prefix_def list_update_append)

lemma prefix_prop_set:
  "prefix h0 h \<Longrightarrow> length h0 \<le> a \<Longrightarrow> prefix h0 (prop_set h (HRef a) k v)"
  by (simp add: prefix_update)

lemma prefix_axios:
  assumes "keeps_old t" "prefix h0 h" "length h0 \<le> sent"
  shows "prefix h0 (t h sent)"
proof -
  from assms(2) obtain zs where h: "h = h0 @ zs" by (auto simp: prefix_def)
  from assms(1) have len: "length h \<le> length (t h sent)"
    and old: "\<And>a. a < length h \<Longrightarrow> a \<noteq> sent \<Longrightarrow> t h sent ! a = h ! a"
    by (auto simp: keeps_old_def)
  have "take (length h0) (t h sent) = h0"
  proof (rule nth_equalityI)
    show "length (take (length h0) (t h sent)) = length h0" using len h by simp
  next
    fix i assume "i < length (take (length h0) (t h sent))"
    then have i: "i < length h0" by simp
    with assms(3) h have "t h sent ! i = h ! i" by (intro old) auto
    with i h show "take (length h0) (t h sent) ! i = h0 ! i" by (simp add: nth_append)
  qed
  then show ?thesis by (metis take_is_prefix)
qed

lemma length_prop_set [simp]: "length (prop_set h t k v) = length h"
  by (cases t) simp_all

lemma prop_get_alloc:
  "prop_get (h @ [ob]) (HRef b) k =
     (if b < length h then prop_get h (HRef b) k
      else if b = length h then (case map_of ob k of None \<Rightarrow> HUndefined | Some v \<Rightarrow> v)
      else HUndefined)"
  by (auto simp: obj_at_def nth_append)

lemma prop_get_prop_set:
  "prop_get (prop_set h (HRef a) k v) (HRef b) k' =
     (if a = b \<and> a < length h \<and> k = k' then v else prop_get h (HRef b) k')"
  by (auto simp: obj_at_def update_conv' nth_list_update)


declare prop_set.simps [simp del] prop_get.simps [simp del]

lemma prefix_default_new: "prefix h0 h \<Longrightarrow> prefix h0 (fst (default_new h v))"
  by (simp add: default_new_def alloc_def)

lemma length_default_new: "length h \<le> length (fst (default_new h v))"
  by (simp add: default_new_def alloc_def)

lemma prefix_dispatch:
  assumes "keeps_old (rt_axios r)" "prefix h0 h"
  shows "prefix h0 (fst (dispatch r h this opts))"
proof -
  from assms(2) have "length h0 \<le> length h" by (rule prefix_length_le)
  with assms show ?thesis
    by (simp add: dispatch_def alloc_def prefix_axios)
qed

lemma prop_get_prefix:
  assumes "prefix h h'" "a < length h"
  shows "prop_get h' (HRef a) k = prop_get h (HRef a) k"
proof -
  from assms(1) obtain zs where "h' = h @ zs" by (auto simp: prefix_def)
  with assms(2) show ?thesis by (simp add: prop_get.simps obj_at_def nth_append)
qed

lemma request_h_frame:
  assumes "keeps_old (rt_axios r)" "prefix h0 h"
  shows "prefix h0 (fst (request_h r h this m ep d ps))
    \<and> ((\<exists>u. getUrl_h (rt_env r) (fst (default_new h ps)) this ep = Inr u)
         \<and> (truthy_h d \<longrightarrow> (\<forall>g. rt_stringify r g d \<noteq> None))
        \<longrightarrow> (\<exists>a. snd (request_h r h this m ep d ps) = Inr a))"
proof -
  obtain h1 params where dn: "default_new h ps = (h1, params)" by (cases "default_new h ps")
  with prefix_default_new [OF assms(2), of ps] have p1: "prefix h0 h1" by simp
  then have l1: "length h0 \<le> length h1" by (rule prefix_length_le)
  show ?thesis
  proof (cases "getUrl_h (rt_env r) h1 this ep")
    case (Inl err)
    with dn p1 show ?thesis by (simp add: request_h_def)
  next
    case (Inr url0)
    define g1 where "g1 = h1 @ [[(''Accept'', HStr ''application/json'')]]"
    define g2 where "g2 = (if is_node (rt_env r)
        then prop_set g1 (HRef (length h1)) ''User-Agent''
               (HStr (''WooCommerce REST API - JS Client/'' @ to_string_h (prop_get g1 (HRef this) ''classVersion'')))
        else g1)"
    define g3 where "g3 = g2 @ [[(''url'', HStr url0), (''method'', HStr m),
        (''responseEncoding'', prop_get g2 (HRef this) ''encoding''),
        (''timeout'', prop_get g2 (HRef this) ''timeout''),
        (''responseType'', HStr ''json''), (''headers'', HRef (length h1))]]"
    define g4 where "g4 = prop_set g3 (HRef (length h1)) ''Authorization''
        (HStr (''Bearer '' @ to_string_h (prop_get g3 (HRef this) ''jwtToken'')))"
    define g5 where "g5 = g4 @ [spread_h g4 (prop_get g4 (HRef (length g2)) ''params'') params]"
    define g6 where "g6 = prop_set g5 (HRef (length g2)) ''params'' (HRef (length g4))"
    define g7 where "g7 = prop_set g6 (prop_get g6 (HRef (length g2)) ''headers'') ''Content-Type''
        (HStr ''application/json;charset=utf-8'')"
    have res: "request_h r h this m ep d ps =
        (if truthy_h d then
           (case rt_stringify r g7 d of
              None \<Rightarrow> (g7, Inl TypeError)
            | Some s \<Rightarrow> dispatch r (prop_set g7 (HRef (length g2)) ''data'' (HStr s)) this (length g2))
         else dispatch r g6 this (length g2))"
      by (simp only: request_h_def dn Inr alloc_def Let_def g7_def g6_def g5_def g4_def g3_def g2_def
          g1_def prod.case sum.case)
    have len: "length g1 = Suc (length h1)" "length g2 = Suc (length h1)"
      "length g3 = Suc (Suc (length h1))" "length g4 = Suc (Suc (length h1))"
      "length g5 = Suc (Suc (Suc (length h1)))" "length g6 = Suc (Suc (Suc (length h1)))"
      by (simp_all add: g1_def g2_def g3_def g4_def g5_def g6_def)
    from l1 have l2: "length h0 \<le> length g2" by (simp add: len)
    have q1: "prefix h0 g1" using p1 by (simp add: g1_def)
    have q2: "prefix h0 g2" using q1 l1 by (simp add: g2_def prefix_prop_set)
    have q3: "prefix h0 g3" using q2 by (simp add: g3_def)
    have q4: "prefix h0 g4" using q3 l1 by (simp add: g4_def prefix_prop_set)
    have q5: "prefix h0 g5" using q4 by (simp add: g5_def)
    have q6: "prefix h0 g6" unfolding g6_def using q5 l2 by (rule prefix_prop_set)
    have "prop_get g3 (HRef (length g2)) ''headers'' = HRef (length h1)"
      by (simp add: g3_def prop_get_alloc)
    then have "prop_get g4 (HRef (length g2)) ''headers'' = HRef (length h1)"
      by (simp add: g4_def prop_get_prop_set len)
    then have "prop_get g5 (HRef (length g2)) ''headers'' = HRef (length h1)"
      by (simp add: g5_def prop_get_alloc len)
    then have target: "prop_get g6 (HRef (length g2)) ''headers'' = HRef (length h1)"
      by (simp add: g6_def prop_get_prop_set)
    have q7: "prefix h0 g7" unfolding g7_def target using q6 l1 by (rule prefix_prop_set)
    have q8: "prefix h0 (prop_set g7 (HRef (length g2)) ''data'' (HStr s))" for s
      using q7 l2 by (rule prefix_prop_set)
    have frame: "prefix h0 (fst (request_h r h this m ep d ps))"
      unfolding res
      using q6 q7 q8 prefix_dispatch [OF assms(1)]
      by (simp split: option.splits)
    have sent: "\<exists>a. snd (dispatch r g this (length g2)) = Inr a" for g
      by (simp add: dispatch_def alloc_def)
    have "\<exists>a. snd (request_h r h this m ep d ps) = Inr a"
      if "truthy_h d \<longrightarrow> (\<forall>g. rt_stringify r g d \<noteq> None)"
    proof (cases "truthy_h d")
      case True
      with that obtain s where "rt_stringify r g7 d = Some s" by auto
      with True sent show ?thesis by (simp add: res)
    next
      case False
      with sent show ?thesis by (simp add: res)
    qed
    with frame show ?thesis by blast
  qed
qed

lemma prefix_request_h:
  assumes "keeps_old (rt_axios r)" "prefix h0 h"
  shows "prefix h0 (fst (request_h r h this m ep d ps))"
  using request_h_frame [OF assms] by blast

lemma getUrl_h_string:
  "prop_get h (HRef this) ''url'' = HStr u \<Longrightarrow> \<exists>s. getUrl_h e h this ep = Inr s"
  by (simp add: getUrl_h_def Let_def)

lemma request_h_dispatches:
  assumes "keeps_old (rt_axios r)"
    and "this < length h" and "prop_get h (HRef this) ''url'' = HStr u"
    and "truthy_h d \<longrightarrow> (\<forall>g. rt_stringify r g d \<noteq> None)"
  shows "\<exists>a. snd (request_h r h this m ep d ps) = Inr a"
proof -
  have "prefix h (fst (default_new h ps))" by (simp add: prefix_default_new)
  with assms(2,3) have "prop_get (fst (default_new h ps)) (HRef this) ''url'' = HStr u"
    by (simp add: prop_get_prefix)
  then have "\<exists>s. getUrl_h (rt_env r) (fst (default_new h ps)) this ep = Inr s"
    by (rule getUrl_h_string)
  with request_h_frame [OF assms(1), of h h this m ep d ps] assms(4) show ?thesis by blast
qed


lemma prefix_perform_h:
  assumes "keeps_old (rt_axios r)" "prefix h0 h"
  shows "prefix h0 (fst (perform_h r h this c))"
proof -
  have "prefix h0 (fst (request_h r (fst (default_new h p)) this m ep d (snd (default_new h p))))"
    for p m ep d
    using assms by (intro prefix_request_h prefix_default_new)
  then show ?thesis
    by (cases c) (simp_all add: get_h_def post_h_def put_h_def delete_h_def options_h_def case_prod_unfold Let_def)
qed

lemma prefix_run_h:
  assumes "keeps_old (rt_axios r)"
  shows "prefix h0 h \<Longrightarrow> prefix h0 (fst (run_h r h this cs))"
proof (induction cs arbitrary: h)
  case Nil
  then show ?case by simp
next
  case (Cons c cs)
  from prefix_perform_h [OF assms Cons.prems] have "prefix h0 (fst (perform_h r h this c))" .
  from Cons.IH [OF this] show ?case by (simp add: case_prod_unfold Let_def)
qed


lemma length_setDefaultsOptions_h: "length h \<le> length (setDefaultsOptions_h h this opt)"
  by (simp add: setDefaultsOptions_h_def or_new_def alloc_def Let_def)

lemma constructor_h_this:
  assumes "constructor_h h0 opt = Inr (h, this)"
  shows "this < length h"
proof -
  obtain h2 o2 where o: "or_new (h0 @ [[]]) opt = (h2, o2)" by (cases "or_new (h0 @ [[]]) opt")
  then have l2: "length h0 < length h2"
    by (auto simp: or_new_def alloc_def split: if_splits)
  from assms o have "this = length h0"
    and "h = setDefaultsOptions_h (prop_set h2 (HRef (length h0)) ''classVersion'' (HStr ''1.0.1'')) (length h0) o2"
    by (auto simp: constructor_h_def alloc_def Let_def split: if_splits)
  with l2 length_setDefaultsOptions_h [of "prop_set h2 (HRef (length h0)) ''classVersion'' (HStr ''1.0.1'')" "length h0" o2]
  show ?thesis by simp
qed

lemma shop_alloc: "alloc [] shop_heap = (shop_heap @ [[]], 4)"
  by (simp add: alloc_def shop_heap_def)

lemma shop_opt_get:
  "prop_get (shop_heap @ [ob]) (HRef 0) k =
     (case map_of [(''url'', HStr ''https://shop.example.com''), (''jwtToken'', HStr ''abc''),
                   (''axiosConfig'', HRef 1)] k of None \<Rightarrow> HUndefined | Some v \<Rightarrow> v)"
  by (simp add: prop_get.simps obj_at_def shop_heap_def)

lemma shop_this_set: "prop_set (shop_heap @ [ob]) (HRef 4) k v = shop_heap @ [AList.update k v ob]"
  by (simp add: prop_set.simps shop_heap_def)

lemma shop_constructed: "constructor_h shop_heap (HRef 0) = Inr (shop_heap @ [shop_instance], 4)"
  by (simp add: constructor_h_def setDefaultsOptions_h_def or_new_def or_h_def Let_def
      shop_alloc shop_opt_get shop_this_set shop_instance_def)

lemma shop_transport: "keeps_old (rt_axios shop_runtime)"
  by (simp add: keeps_old_def shop_runtime_def)

lemma perform_h_dispatches:
  assumes "keeps_old (rt_axios r)"
    and "this < length h" and "prop_get h (HRef this) ''url'' = HStr u"
    and "\<forall>g d. rt_stringify r g d \<noteq> None"
  shows "\<exists>a. snd (perform_h r h this c) = Inr a"
proof -
  have "\<exists>a. snd (request_h r (fst (default_new h p)) this m ep d (snd (default_new h p))) = Inr a"
    for p m ep d
  proof (rule request_h_dispatches [OF assms(1)])
    have pre: "prefix h (fst (default_new h p))" by (simp add: prefix_default_new)
    from assms(2) prefix_length_le [OF pre] show "this < length (fst (default_new h p))" by simp
    from pre assms(2,3) show "prop_get (fst (default_new h p)) (HRef this) ''url'' = HStr u"
      by (simp add: prop_get_prefix)
    from assms(4) show "truthy_h d \<longrightarrow> (\<forall>g. rt_stringify r g d \<noteq> None)" by simp
  qed
  then show ?thesis
    by (cases c) (simp_all add: get_h_def post_h_def put_h_def delete_h_def options_h_def
        case_prod_unfold Let_def)
qed

text \<open>
  C10. After any sequence of calls of \<open>get\<close>, \<open>post\<close>, \<open>put\<close>, \<open>delete\<close> and
  \<open>options\<close>, every object that was in the store before the calls is as it was: the calls
  write only to the objects they create (the headers, the options, the copies made by the
  spreads), and the transport is taken to write only to the option object it is handed
  and to objects of its own. So every field of the instance, \<open>url\<close>, \<open>wpAPIPrefix\<close>,
  \<open>version\<close>, \<open>jwtToken\<close>, \<open>encoding\<close>, \<open>port\<close>, \<open>timeout\<close>,
  \<open>axiosConfig\<close> and \<open>classVersion\<close>, has the value it had, for an instance the
  constructor has built as for any other, and so has every object \<open>axiosConfig\<close> leads to.
\<close>

theorem configuration_unchanged:
  assumes "keeps_old (rt_axios r)"
  shows "prefix h (fst (run_h r h this calls))
     \<and> (\<forall>a k. a < length h \<longrightarrow>
           prop_get (fst (run_h r h this calls)) (HRef a) k = prop_get h (HRef a) k)
     \<and> (constructor_h h0 opt = Inr (h, this) \<longrightarrow>
           this < length h
           \<and> (\<forall>k. prop_get (fst (run_h r h this calls)) (HRef this) k = prop_get h (HRef this) k))"
proof -
  have p: "prefix h (fst (run_h r h this calls))"
    using assms by (rule prefix_run_h) simp
  then have old: "\<forall>a k. a < length h \<longrightarrow>
      prop_get (fst (run_h r h this calls)) (HRef a) k = prop_get h (HRef a) k"
    by (simp add: prop_get_prefix)
  with p constructor_h_this show ?thesis by blast
qed

theorem configuration_unchanged_witness:
  "keeps_old (rt_axios shop_runtime)
   \<and> constructor_h shop_heap (HRef 0) = Inr (shop_heap @ [shop_instance], 4)
   \<and> (\<forall>k. prop_get (fst (run_h shop_runtime (shop_heap @ [shop_instance]) 4
          [HGet ''products'' HUndefined, HPost ''products'' (HRef 3) HUndefined,
           HPut ''products/1'' (HRef 3) HUndefined, HDelete ''products/1'' HUndefined,
           HOptions ''products'' HUndefined])) (HRef 4) k
        = prop_get (shop_heap @ [shop_instance]) (HRef 4) k)
   \<and> prop_get (fst (run_h shop_runtime (shop_heap @ [shop_instance]) 4
          [HGet ''products'' HUndefined, HPost ''products'' (HRef 3) HUndefined,
           HPut ''products/1'' (HRef 3) HUndefined, HDelete ''products/1'' HUndefined,
           HOptions ''products'' HUndefined])) (HRef 4) ''url'' = HStr ''https://shop.example.com''
   \<and> prop_get (fst (run_h shop_runtime (shop_heap @ [shop_instance]) 4
          [HGet ''products'' HUndefined, HPost ''products'' (HRef 3) HUndefined,
           HPut ''products/1'' (HRef 3) HUndefined, HDelete ''products/1'' HUndefined,
           HOptions ''products'' HUndefined])) (HRef 4) ''axiosConfig'' = HRef 1
   \<and> prop_get (fst (run_h shop_runtime (shop_heap @ [shop_instance]) 4
          [HGet ''products'' HUndefined, HPost ''products'' (HRef 3) HUndefined,
           HPut ''products/1'' (HRef 3) HUndefined, HDelete ''products/1'' HUndefined,
           HOptions ''products'' HUndefined])) (HRef 1) ''proxy'' = HRef 2
   \<and> prop_get (fst (run_h shop_runtime (shop_heap @ [shop_instance]) 4
          [HGet ''products'' HUndefined, HPost ''products'' (HRef 3) HUndefined,
           HPut ''products/1'' (HRef 3) HUndefined, HDelete ''products/1'' HUndefined,
           HOptions ''products'' HUndefined])) (HRef 2) ''host'' = HStr ''localhost''
   \<and> (\<exists>a. snd (perform_h shop_runtime (shop_heap @ [shop_instance]) 4
          (HPost ''products'' (HRef 3) HUndefined)) = Inr a)"
proof -
  let ?h = "shop_heap @ [shop_instance]"
  let ?cs = "[HGet ''products'' HUndefined, HPost ''products'' (HRef 3) HUndefined,
           HPut ''products/1'' (HRef 3) HUndefined, HDelete ''products/1'' HUndefined,
           HOptions ''products'' HUndefined]"
  have l: "(4::nat) < length ?h" "(2::nat) < length ?h" "(1::nat) < length ?h"
    by (simp_all add: shop_heap_def)
  have v: "prop_get ?h (HRef 4) ''url'' = HStr ''https://shop.example.com''"
    "prop_get ?h (HRef 4) ''axiosConfig'' = HRef 1"
    "prop_get ?h (HRef 1) ''proxy'' = HRef 2"
    "prop_get ?h (HRef 2) ''host'' = HStr ''localhost''"
    by (simp_all add: prop_get.simps obj_at_def shop_heap_def shop_instance_def)
  have s: "\<forall>g d. rt_stringify shop_runtime g d \<noteq> None" by (simp add: shop_runtime_def)
  have d: "\<exists>a. snd (perform_h shop_runtime ?h 4 (HPost ''products'' (HRef 3) HUndefined)) = Inr a"
    using shop_transport l(1) v(1) s by (rule perform_h_dispatches)
  from configuration_unchanged [OF shop_transport, of ?h 4 ?cs shop_heap "HRef 0"]
  show ?thesis
    using shop_transport shop_constructed l v d by simp
qed

end
